theory Spec2Isabelle
  imports Main "HOL-Library.Sublist"
begin

section \<open>The relational store behind the connection pool\<close>

text \<open>
  Modelled from the spec: the schema script (queries/schema) is not among the sources, so the
  five tables are taken from the data model of the specification and from the column names
  the statements of the service mention. Ids of Room, Quiz, Question and Choice rows are
  serial numbers; an id handed to the service as decimal text is the number itself here.
  A Question without a correct answer stores NULL, written \<open>None\<close>.
\<close>

record Room_row =
  r_room_id :: nat
  r_event_key :: string
  r_room_name :: string
  r_presenter_id :: string

record Quiz_row =
  qz_quiz_id :: nat
  qz_max_duration :: int
  qz_title :: string
  qz_room_id :: nat

record Question_row =
  qn_question_id :: nat
  qn_question_label :: string
  qn_correct_answer :: "string option"
  qn_quiz_id :: nat

record Choice_row =
  c_choice_id :: nat
  c_choice_label :: string
  c_question_id :: nat

record AnswerEntry_row =
  a_question_id :: nat
  a_participant_id :: string
  a_answer_label :: string

text \<open>The driver's \<open>QueryResult\<close>: the rows a statement returned and its row count.\<close>

record 'r QueryResult =
  rows :: "'r list"
  rowCount :: nat

text \<open>A value bound to a placeholder \<open>$n\<close> of a statement.\<close>

datatype param = PString string | PId nat | PNumber int

text \<open>A statement as the pool receives it: the SQL text and the bound values.\<close>

record statement =
  sql :: string
  params :: "param list"

text \<open>
  The service object: its schema name (the constant \<open>DB_SCHEMA_NAME\<close> is not among the
  sources and stays a parameter), the tables behind its pool, the serial counters of the
  tables, and the statements the pool has received so far, oldest first.
\<close>

record DatabaseService =
  SCHEMA_NAME :: string
  Room_table :: "Room_row list"
  Quiz_table :: "Quiz_row list"
  Question_table :: "Question_row list"
  Choice_table :: "Choice_row list"
  AnswerEntry_table :: "AnswerEntry_row list"
  Room_seq :: nat
  Quiz_seq :: nat
  Question_seq :: nat
  Choice_seq :: nat
  sent :: "statement list"

text \<open>
  \<open>pool.query(query, values)\<close>: the pool records the statement it was sent and runs it on
  the store. The third argument is the meaning of the SQL text on the tables. A store that
  cannot be reached rejects the call; such failures are outside this model, in which every
  statement is answered.
\<close>

definition pool_query ::
  "string \<Rightarrow> param list \<Rightarrow> (DatabaseService \<Rightarrow> 'a \<times> DatabaseService) \<Rightarrow>
   DatabaseService \<Rightarrow> 'a \<times> DatabaseService" where
  "pool_query query vals run s = run (s\<lparr>sent := sent s @ [\<lparr>sql = query, params = vals\<rparr>]\<rparr>)"

text \<open>
  Modelled from the spec: a SELECT returns the rows it denotes and leaves the store as it
  is; a table is scanned in the order its rows were inserted (the specification's
  "insertion order"), and \<open>rowCount\<close> is the number of rows returned.
\<close>

definition store_select ::
  "(DatabaseService \<Rightarrow> 'r list) \<Rightarrow> DatabaseService \<Rightarrow> 'r QueryResult \<times> DatabaseService" where
  "store_select f s = (\<lparr>rows = f s, rowCount = length (f s)\<rparr>, s)"

text \<open>
  Modelled from the spec: an INSERT appends one row and is never rejected (the service
  validates nothing, and the specification has rows inserted unconditionally); the serial
  column takes the next value of the table's counter. An INSERT returns no rows and the row
  count 1.
\<close>

definition insert_AnswerEntry ::
  "nat \<Rightarrow> string \<Rightarrow> string \<Rightarrow> DatabaseService \<Rightarrow> unit QueryResult \<times> DatabaseService" where
  "insert_AnswerEntry question_id participant_id answer_label s =
     (\<lparr>rows = [], rowCount = 1\<rparr>,
      s\<lparr>AnswerEntry_table := AnswerEntry_table s @
           [\<lparr>a_question_id = question_id, a_participant_id = participant_id,
             a_answer_label = answer_label\<rparr>]\<rparr>)"

definition insert_Room ::
  "string \<Rightarrow> string \<Rightarrow> string \<Rightarrow> DatabaseService \<Rightarrow> unit QueryResult \<times> DatabaseService" where
  "insert_Room event_key room_name presenter_id s =
     (\<lparr>rows = [], rowCount = 1\<rparr>,
      s\<lparr>Room_table := Room_table s @
           [\<lparr>r_room_id = Room_seq s, r_event_key = event_key, r_room_name = room_name,
             r_presenter_id = presenter_id\<rparr>],
        Room_seq := Suc (Room_seq s)\<rparr>)"

definition insert_Quiz ::
  "int \<Rightarrow> string \<Rightarrow> nat \<Rightarrow> DatabaseService \<Rightarrow> unit QueryResult \<times> DatabaseService" where
  "insert_Quiz max_duration title room_id s =
     (\<lparr>rows = [], rowCount = 1\<rparr>,
      s\<lparr>Quiz_table := Quiz_table s @
           [\<lparr>qz_quiz_id = Quiz_seq s, qz_max_duration = max_duration, qz_title = title,
             qz_room_id = room_id\<rparr>],
        Quiz_seq := Suc (Quiz_seq s)\<rparr>)"

definition insert_Question ::
  "string \<Rightarrow> string option \<Rightarrow> nat \<Rightarrow> DatabaseService \<Rightarrow> unit QueryResult \<times> DatabaseService" where
  "insert_Question question_label correct_answer quiz_id s =
     (\<lparr>rows = [], rowCount = 1\<rparr>,
      s\<lparr>Question_table := Question_table s @
           [\<lparr>qn_question_id = Question_seq s, qn_question_label = question_label,
             qn_correct_answer = correct_answer, qn_quiz_id = quiz_id\<rparr>],
        Question_seq := Suc (Question_seq s)\<rparr>)"

definition insert_Choice ::
  "string \<Rightarrow> nat \<Rightarrow> DatabaseService \<Rightarrow> unit QueryResult \<times> DatabaseService" where
  "insert_Choice choice_label question_id s =
     (\<lparr>rows = [], rowCount = 1\<rparr>,
      s\<lparr>Choice_table := Choice_table s @
           [\<lparr>c_choice_id = Choice_seq s, c_choice_label = choice_label,
             c_question_id = question_id\<rparr>],
        Choice_seq := Suc (Choice_seq s)\<rparr>)"

text \<open>
  Modelled from the spec: an UPDATE rewrites the named columns of every row its WHERE clause
  selects, in place, and returns the number of rows it changed.
\<close>

definition update_Quiz ::
  "(Quiz_row \<Rightarrow> bool) \<Rightarrow> (Quiz_row \<Rightarrow> Quiz_row) \<Rightarrow> DatabaseService \<Rightarrow>
   unit QueryResult \<times> DatabaseService" where
  "update_Quiz wh set_cols s =
     (\<lparr>rows = [], rowCount = length (filter wh (Quiz_table s))\<rparr>,
      s\<lparr>Quiz_table := map (\<lambda>row. if wh row then set_cols row else row) (Quiz_table s)\<rparr>)"

definition update_Question ::
  "(Question_row \<Rightarrow> bool) \<Rightarrow> (Question_row \<Rightarrow> Question_row) \<Rightarrow> DatabaseService \<Rightarrow>
   unit QueryResult \<times> DatabaseService" where
  "update_Question wh set_cols s =
     (\<lparr>rows = [], rowCount = length (filter wh (Question_table s))\<rparr>,
      s\<lparr>Question_table := map (\<lambda>row. if wh row then set_cols row else row) (Question_table s)\<rparr>)"

section \<open>The statements of the service\<close>

text \<open>
  The SQL texts, character for character as the template literals of the service build
  them from the schema name; \<open>nl\<close> is the line break inside a multi-line literal.
\<close>

definition nl :: string where
  "nl = [CHR 0x0A]"

definition getAllFromTable_query :: "string \<Rightarrow> string \<Rightarrow> string" where
  "getAllFromTable_query sn tableName =
     ''SELECT * FROM '' @ sn @ ''.'' @ tableName"

definition getAllQuestionsByEventKey_query :: "string \<Rightarrow> string" where
  "getAllQuestionsByEventKey_query sn =
     ''SELECT qn.question_id, qn.question_label, qn.correct_answer, qn.quiz_id'' @ nl
     @ ''        FROM '' @ sn @ ''.Question qn, '' @ sn @ ''.Quiz qz, '' @ sn @ ''.Room r'' @ nl
     @ ''        WHERE r.event_key = $1'' @ nl @ ''        AND r.room_id = qz.room_id'' @ nl
     @ ''        AND qn.quiz_id = qz.quiz_id'' @ nl @ ''        ORDER BY qn.question_id''"

definition getAllChoicesByQuestion_query :: "string \<Rightarrow> string" where
  "getAllChoicesByQuestion_query sn =
     ''SELECT * FROM '' @ sn @ ''.Choice c WHERE c.question_id = $1;''"

definition createAnswer_query :: "string \<Rightarrow> string" where
  "createAnswer_query sn =
     ''INSERT INTO '' @ sn
     @ ''.AnswerEntry (question_id, participant_id, answer_label) VALUES ($1,$2,$3);''"

definition generateUniqueEventKey_query :: "string \<Rightarrow> string \<Rightarrow> string" where
  "generateUniqueEventKey_query sn eventKey =
     nl @ ''                SELECT event_key FROM '' @ sn @ ''.Room'' @ nl
     @ ''                WHERE event_key = '' @ [CHR 0x27] @ eventKey @ [CHR 0x27]"

definition createRoom_insert_query :: "string \<Rightarrow> string" where
  "createRoom_insert_query sn =
     ''INSERT INTO '' @ sn @ ''.Room (event_key, room_name, presenter_id) VALUES ($1,$2,$3);''"

definition createRoom_select_query :: "string \<Rightarrow> string" where
  "createRoom_select_query sn =
     ''SELECT * FROM '' @ sn @ ''.Room WHERE event_key = $1''"

definition createQuiz_insert_query :: "string \<Rightarrow> string" where
  "createQuiz_insert_query sn =
     ''INSERT INTO '' @ sn @ ''.Quiz (max_duration, title, room_id) VALUES ($1,$2,$3);''"

definition createQuiz_select_query :: "string \<Rightarrow> string" where
  "createQuiz_select_query sn =
     ''SELECT * FROM '' @ sn @ ''.Quiz'' @ nl @ ''            WHERE room_id = $1'' @ nl
     @ ''            ORDER BY quiz_id DESC'' @ nl @ ''            LIMIT 1''"

definition createQuestion_insert3_query :: "string \<Rightarrow> string" where
  "createQuestion_insert3_query sn =
     ''INSERT INTO '' @ sn
     @ ''.Question (question_label, correct_answer, quiz_id) VALUES ($1,$2,$3);''"

definition createQuestion_insert2_query :: "string \<Rightarrow> string" where
  "createQuestion_insert2_query sn =
     ''INSERT INTO '' @ sn @ ''.Question (question_label, quiz_id) VALUES ($1,$2);''"

definition createQuestion_select_query :: "string \<Rightarrow> string" where
  "createQuestion_select_query sn =
     ''SELECT * FROM '' @ sn @ ''.Question '' @ nl @ ''                WHERE quiz_id = $1 ''
     @ nl @ ''                ORDER BY question_id DESC'' @ nl @ ''                LIMIT 1''"

definition createChoices_query :: "string \<Rightarrow> string" where
  "createChoices_query sn =
     ''INSERT INTO '' @ sn @ ''.Choice (choice_label, question_id) VALUES ($1,$2);''"

definition getAllAnswersByQuiz_query :: "string \<Rightarrow> string" where
  "getAllAnswersByQuiz_query sn =
     ''SELECT a.answer_label, a.question_id, a.participant_id '' @ nl @ ''            FROM ''
     @ sn @ ''.AnswerEntry a, '' @ sn @ ''.Question q'' @ nl
     @ ''            WHERE q.quiz_id = $1'' @ nl
     @ ''            AND q.question_id = a.question_id ''"

definition getRoomByEventKey_query :: "string \<Rightarrow> string" where
  "getRoomByEventKey_query sn =
     ''SELECT * FROM '' @ sn @ ''.Room'' @ nl @ ''            WHERE event_key = $1''"

definition getAllQuizzesByEventKey_query :: "string \<Rightarrow> string" where
  "getAllQuizzesByEventKey_query sn =
     ''SELECT q.quiz_id, q.max_duration, q.title, q.room_id'' @ nl @ ''            FROM '' @ sn
     @ ''.Quiz q, '' @ sn @ ''.Room r'' @ nl @ ''            WHERE r.event_key = $1'' @ nl
     @ ''            AND r.room_id = q.room_id''"

definition updateQuiz_update_query :: "string \<Rightarrow> string" where
  "updateQuiz_update_query sn =
     ''UPDATE '' @ sn @ ''.Quiz'' @ nl @ ''            SET max_duration = $1, title = $2'' @ nl
     @ ''            WHERE quiz_id = $3''"

definition updateQuiz_select_query :: "string \<Rightarrow> string" where
  "updateQuiz_select_query sn =
     ''SELECT * FROM '' @ sn @ ''.Quiz'' @ nl @ ''            WHERE quiz_id = $1'' @ nl
     @ ''            LIMIT 1''"

definition updateQuestion_update1_query :: "string \<Rightarrow> string" where
  "updateQuestion_update1_query sn =
     ''UPDATE '' @ sn @ ''.Question'' @ nl @ ''                SET question_label = $1'' @ nl
     @ ''                WHERE question_id = $2''"

definition updateQuestion_update2_query :: "string \<Rightarrow> string" where
  "updateQuestion_update2_query sn =
     ''UPDATE '' @ sn @ ''.Question'' @ nl
     @ ''                SET question_label = $1, correct_answer = $2'' @ nl
     @ ''                WHERE question_id = $3''"

definition updateQuestion_select_query :: "string \<Rightarrow> string" where
  "updateQuestion_select_query sn =
     ''SELECT * FROM '' @ sn @ ''.Question'' @ nl @ ''            WHERE question_id = $1'' @ nl
     @ ''            LIMIT 1''"

definition getAllRoomsByPresenter_query :: "string \<Rightarrow> string" where
  "getAllRoomsByPresenter_query sn =
     ''SELECT * FROM '' @ sn @ ''.Room WHERE presenter_id = $1''"

definition getAllAnswersByQuestion_query :: "string \<Rightarrow> string" where
  "getAllAnswersByQuestion_query sn =
     ''SELECT * FROM '' @ sn @ ''.AnswerEntry WHERE question_id = $1''"

section \<open>The service\<close>

subsection \<open>Reading\<close>

text \<open>
  Of the two debugging helpers, \<open>resetDatabase\<close> runs the schema and data scripts, which are
  not among the sources, and is not modelled. \<open>getAllFromTable\<close> splices its argument into
  the text as a table name. What the store answers to a table named by arbitrary text is
  left a parameter, \<open>relation\<close>.
\<close>

definition getAllFromTable ::
  "string \<Rightarrow> (string \<Rightarrow> DatabaseService \<Rightarrow> 'r list) \<Rightarrow> DatabaseService \<Rightarrow>
   'r QueryResult \<times> DatabaseService" where
  "getAllFromTable tableName relation s =
     (let query = getAllFromTable_query (SCHEMA_NAME s) tableName
      in pool_query query [] (store_select (relation tableName)) s)"

text \<open>
  The join \<open>FROM Question qn, Quiz qz, Room r WHERE r.event_key = $1 AND r.room_id =
  qz.room_id AND qn.quiz_id = qz.quiz_id\<close>, one row of the selected Question columns for every
  matching triple.
\<close>

definition join_Question_Quiz_Room :: "string \<Rightarrow> DatabaseService \<Rightarrow> Question_row list" where
  "join_Question_Quiz_Room eventKey t =
     [qn. qn \<leftarrow> Question_table t, qz \<leftarrow> Quiz_table t, r \<leftarrow> Room_table t,
          r_event_key r = eventKey \<and> r_room_id r = qz_room_id qz \<and>
          qn_quiz_id qn = qz_quiz_id qz]"

definition getAllQuestionsByEventKey ::
  "string \<Rightarrow> DatabaseService \<Rightarrow> Question_row QueryResult \<times> DatabaseService" where
  "getAllQuestionsByEventKey eventKey s =
     (let query = getAllQuestionsByEventKey_query (SCHEMA_NAME s);
          vals = [PString eventKey]
      in pool_query query vals
           (store_select (\<lambda>t. sort_key qn_question_id (join_Question_Quiz_Room eventKey t))) s)"

definition getAllChoicesByQuestion ::
  "nat \<Rightarrow> DatabaseService \<Rightarrow> Choice_row QueryResult \<times> DatabaseService" where
  "getAllChoicesByQuestion questionId s =
     (let query = getAllChoicesByQuestion_query (SCHEMA_NAME s);
          vals = [PId questionId]
      in pool_query query vals
           (store_select (\<lambda>t. filter (\<lambda>c. c_question_id c = questionId) (Choice_table t))) s)"

definition getAllAnswersByQuestion ::
  "nat \<Rightarrow> DatabaseService \<Rightarrow> AnswerEntry_row QueryResult \<times> DatabaseService" where
  "getAllAnswersByQuestion questionId s =
     (let query = getAllAnswersByQuestion_query (SCHEMA_NAME s);
          vals = [PId questionId]
      in pool_query query vals
           (store_select (\<lambda>t. filter (\<lambda>a. a_question_id a = questionId) (AnswerEntry_table t))) s)"

subsection \<open>Answer submission\<close>

definition createAnswer ::
  "nat \<Rightarrow> string \<Rightarrow> string \<Rightarrow> DatabaseService \<Rightarrow> unit QueryResult \<times> DatabaseService" where
  "createAnswer questionId participantId answerLabel s =
     (let query = createAnswer_query (SCHEMA_NAME s);
          vals = [PId questionId, PString participantId, PString answerLabel]
      in pool_query query vals (insert_AnswerEntry questionId participantId answerLabel) s)"

subsection \<open>More reading\<close>

definition getAllAnswersByQuiz ::
  "nat \<Rightarrow> DatabaseService \<Rightarrow> AnswerEntry_row QueryResult \<times> DatabaseService" where
  "getAllAnswersByQuiz quizId s =
     (let query = getAllAnswersByQuiz_query (SCHEMA_NAME s);
          vals = [PId quizId]
      in pool_query query vals
           (store_select (\<lambda>t.
              [a. a \<leftarrow> AnswerEntry_table t, q \<leftarrow> Question_table t,
                  qn_quiz_id q = quizId \<and> qn_question_id q = a_question_id a])) s)"

definition getRoomByEventKey ::
  "string \<Rightarrow> DatabaseService \<Rightarrow> Room_row QueryResult \<times> DatabaseService" where
  "getRoomByEventKey eventKey s =
     (let query = getRoomByEventKey_query (SCHEMA_NAME s);
          vals = [PString eventKey]
      in pool_query query vals
           (store_select (\<lambda>t. filter (\<lambda>r. r_event_key r = eventKey) (Room_table t))) s)"

definition getAllQuizzesByEventKey ::
  "string \<Rightarrow> DatabaseService \<Rightarrow> Quiz_row QueryResult \<times> DatabaseService" where
  "getAllQuizzesByEventKey eventKey s =
     (let query = getAllQuizzesByEventKey_query (SCHEMA_NAME s);
          vals = [PString eventKey]
      in pool_query query vals
           (store_select (\<lambda>t.
              [q. q \<leftarrow> Quiz_table t, r \<leftarrow> Room_table t,
                  r_event_key r = eventKey \<and> r_room_id r = qz_room_id q])) s)"

definition getAllRoomsByPresenter ::
  "string \<Rightarrow> DatabaseService \<Rightarrow> Room_row QueryResult \<times> DatabaseService" where
  "getAllRoomsByPresenter presenterId s =
     (let query = getAllRoomsByPresenter_query (SCHEMA_NAME s);
          vals = [PString presenterId]
      in pool_query query vals
           (store_select (\<lambda>t. filter (\<lambda>r. r_presenter_id r = presenterId) (Room_table t))) s)"

subsection \<open>Event keys\<close>

text \<open>
  \<open>uuidv4\<close> is the random source: \<open>uuidv4 n\<close> is the identifier its \<open>n\<close>-th call returns, and
  the loop threads the number of calls made so far. \<open>slice(0, 8)\<close> keeps the first eight
  characters. The candidate is spliced into the text between quotes; it consists of
  hexadecimal digits and hyphens, so the quoted literal denotes the candidate itself and the
  store compares \<open>event_key\<close> with it. A loop that never finds a free key does not return:
  \<open>None\<close>.
\<close>

partial_function (option) generateUniqueEventKey ::
  "(nat \<Rightarrow> string) \<Rightarrow> nat \<Rightarrow> DatabaseService \<Rightarrow> (string \<times> nat \<times> DatabaseService) option" where
  "generateUniqueEventKey uuidv4 n s =
     (let eventKey = take 8 (uuidv4 n);
          existingKeys = pool_query (generateUniqueEventKey_query (SCHEMA_NAME s) eventKey) []
            (store_select (\<lambda>t. map r_event_key
               (filter (\<lambda>r. r_event_key r = eventKey) (Room_table t)))) s
      in if rowCount (fst existingKeys) > 0
         then generateUniqueEventKey uuidv4 (Suc n) (snd existingKeys)
         else Some (eventKey, Suc n, snd existingKeys))"

subsection \<open>Creation\<close>

definition createRoom ::
  "string \<Rightarrow> string \<Rightarrow> string \<Rightarrow> DatabaseService \<Rightarrow> Room_row QueryResult \<times> DatabaseService" where
  "createRoom eventKey name presenterId s =
     (let query = createRoom_insert_query (SCHEMA_NAME s);
          vals = [PString eventKey, PString name, PString presenterId];
          s1 = snd (pool_query query vals (insert_Room eventKey name presenterId) s);
          query = createRoom_select_query (SCHEMA_NAME s);
          vals = [PString eventKey]
      in pool_query query vals
           (store_select (\<lambda>t. filter (\<lambda>r. r_event_key r = eventKey) (Room_table t))) s1)"

definition createQuiz ::
  "int \<Rightarrow> string \<Rightarrow> nat \<Rightarrow> DatabaseService \<Rightarrow> Quiz_row QueryResult \<times> DatabaseService" where
  "createQuiz maxDuration title roomId s =
     (let query = createQuiz_insert_query (SCHEMA_NAME s);
          vals = [PNumber maxDuration, PString title, PId roomId];
          s1 = snd (pool_query query vals (insert_Quiz maxDuration title roomId) s);
          query = createQuiz_select_query (SCHEMA_NAME s);
          vals = [PId roomId]
      in pool_query query vals
           (store_select (\<lambda>t. take 1 (rev (sort_key qz_quiz_id
              (filter (\<lambda>q. qz_room_id q = roomId) (Quiz_table t)))))) s1)"

definition createQuestion ::
  "string \<Rightarrow> string option \<Rightarrow> nat \<Rightarrow> DatabaseService \<Rightarrow>
   Question_row QueryResult \<times> DatabaseService" where
  "createQuestion questionLabel correctAnswer quizId s =
     (let s1 =
            (case correctAnswer of
               Some answer \<Rightarrow>
                 (let query = createQuestion_insert3_query (SCHEMA_NAME s);
                      vals = [PString questionLabel, PString answer, PId quizId]
                  in snd (pool_query query vals
                            (insert_Question questionLabel (Some answer) quizId) s))
             | None \<Rightarrow>
                 (let query = createQuestion_insert2_query (SCHEMA_NAME s);
                      vals = [PString questionLabel, PId quizId]
                  in snd (pool_query query vals (insert_Question questionLabel None quizId) s)));
          query = createQuestion_select_query (SCHEMA_NAME s);
          vals = [PId quizId]
      in pool_query query vals
           (store_select (\<lambda>t. take 1 (rev (sort_key qn_question_id
              (filter (\<lambda>q. qn_quiz_id q = quizId) (Question_table t)))))) s1)"

fun createChoices :: "nat \<Rightarrow> string list \<Rightarrow> DatabaseService \<Rightarrow> DatabaseService" where
  "createChoices questionId [] s = s"
| "createChoices questionId (choiceLabel # rest) s =
     (let query = createChoices_query (SCHEMA_NAME s);
          vals = [PString choiceLabel, PId questionId]
      in createChoices questionId rest
           (snd (pool_query query vals (insert_Choice choiceLabel questionId) s)))"

text \<open>Reading \<open>rows[0]\<close> of an empty result and then a property of it throws.\<close>

datatype error = TypeError

definition createQuestionAndChoices ::
  "string \<Rightarrow> string option \<Rightarrow> nat \<Rightarrow> string list option \<Rightarrow> DatabaseService \<Rightarrow>
   (error + Question_row QueryResult) \<times> DatabaseService" where
  "createQuestionAndChoices questionLabel correctAnswer quizId choiceLabels s =
     (let (question, s1) = createQuestion questionLabel correctAnswer quizId s
      in case choiceLabels of
           None \<Rightarrow> (Inr question, s1)
         | Some labels \<Rightarrow>
             (case rows question of
                [] \<Rightarrow> (Inl TypeError, s1)
              | row # _ \<Rightarrow>
                  (let questionId = qn_question_id row
                   in (Inr question, createChoices questionId labels s1))))"

subsection \<open>Updates\<close>

definition updateQuiz ::
  "nat \<Rightarrow> int \<Rightarrow> string \<Rightarrow> DatabaseService \<Rightarrow> Quiz_row QueryResult \<times> DatabaseService" where
  "updateQuiz quizId maxDuration title s =
     (let query = updateQuiz_update_query (SCHEMA_NAME s);
          vals = [PNumber maxDuration, PString title, PId quizId];
          s1 = snd (pool_query query vals
                 (update_Quiz (\<lambda>q. qz_quiz_id q = quizId)
                    (\<lambda>q. q\<lparr>qz_max_duration := maxDuration, qz_title := title\<rparr>)) s);
          query = updateQuiz_select_query (SCHEMA_NAME s);
          vals = [PId quizId]
      in pool_query query vals
           (store_select (\<lambda>t. take 1 (filter (\<lambda>q. qz_quiz_id q = quizId) (Quiz_table t)))) s1)"

definition updateQuestion ::
  "nat \<Rightarrow> string \<Rightarrow> string option \<Rightarrow> DatabaseService \<Rightarrow>
   Question_row QueryResult \<times> DatabaseService" where
  "updateQuestion questionId questionLabel correctAnswer s =
     (let s1 =
            (case correctAnswer of
               None \<Rightarrow>
                 (let query = updateQuestion_update1_query (SCHEMA_NAME s);
                      vals = [PString questionLabel, PId questionId]
                  in snd (pool_query query vals
                       (update_Question (\<lambda>q. qn_question_id q = questionId)
                          (\<lambda>q. q\<lparr>qn_question_label := questionLabel\<rparr>)) s))
             | Some answer \<Rightarrow>
                 (let query = updateQuestion_update2_query (SCHEMA_NAME s);
                      vals = [PString questionLabel, PString answer, PId questionId]
                  in snd (pool_query query vals
                       (update_Question (\<lambda>q. qn_question_id q = questionId)
                          (\<lambda>q. q\<lparr>qn_question_label := questionLabel,
                                 qn_correct_answer := Some answer\<rparr>)) s)));
          query = updateQuestion_select_query (SCHEMA_NAME s);
          vals = [PId questionId]
      in pool_query query vals
           (store_select (\<lambda>t. take 1
              (filter (\<lambda>q. qn_question_id q = questionId) (Question_table t)))) s1)"

subsection \<open>Aggregation\<close>

text \<open>The \<open>Question\<close> interface the result rows are mapped to.\<close>

record Question =
  i_questionId :: nat
  i_correctAnswer :: "string option"
  i_questionLabel :: string
  i_quizId :: nat

text \<open>One element of \<open>allAnswers\<close>.\<close>

record AnswerBundle =
  questionId :: nat
  questionLabel :: string
  choices :: "string list"
  answers :: "string list"

text \<open>The inner loops: \<open>push\<close> every element of an array onto a fresh one, by index.\<close>

definition push_all :: "'a list \<Rightarrow> 'a list" where
  "push_all xs = foldl (\<lambda>tmp x. tmp @ [x]) [] xs"

text \<open>The loop over \<open>questions\<close>, with \<open>allAnswers\<close> as it stands.\<close>

fun getAllAnswersByEventKey_loop ::
  "Question list \<Rightarrow> AnswerBundle list \<Rightarrow> DatabaseService \<Rightarrow>
   AnswerBundle list \<times> DatabaseService" where
  "getAllAnswersByEventKey_loop [] allAnswers s = (allAnswers, s)"
| "getAllAnswersByEventKey_loop (question # rest) allAnswers s =
     (let (choicesResult, s1) = getAllChoicesByQuestion (i_questionId question) s;
          tempChoiceArray =
            (if rowCount choicesResult > 0
             then push_all (map c_choice_label (rows choicesResult))
             else []);
          (answersResult, s2) = getAllAnswersByQuestion (i_questionId question) s1;
          queryAnswers = map a_answer_label (rows answersResult);
          tempArray = push_all queryAnswers
      in getAllAnswersByEventKey_loop rest
           (allAnswers @
              [\<lparr>questionId = i_questionId question, questionLabel = i_questionLabel question,
                choices = tempChoiceArray, answers = tempArray\<rparr>]) s2)"

definition getAllAnswersByEventKey ::
  "string \<Rightarrow> DatabaseService \<Rightarrow> AnswerBundle list \<times> DatabaseService" where
  "getAllAnswersByEventKey eventKey s =
     (let (questionsResult, s1) = getAllQuestionsByEventKey eventKey s;
          questions = map (\<lambda>question.
              \<lparr>i_questionId = qn_question_id question,
               i_correctAnswer = qn_correct_answer question,
               i_questionLabel = qn_question_label question,
               i_quizId = qn_quiz_id question\<rparr>) (rows questionsResult)
      in getAllAnswersByEventKey_loop questions [] s1)"

section \<open>Vocabulary of the properties\<close>

text \<open>
  A Question belongs to the Room with a given event key when its Quiz is a Quiz of a Room
  carrying that key.
\<close>

definition spec_belongs_to_room :: "DatabaseService \<Rightarrow> string \<Rightarrow> Question_row \<Rightarrow> bool" where
  "spec_belongs_to_room s eventKey qn =
     (\<exists>qz \<in> set (Quiz_table s). \<exists>r \<in> set (Room_table s).
        r_event_key r = eventKey \<and> r_room_id r = qz_room_id qz \<and> qn_quiz_id qn = qz_quiz_id qz)"

text \<open>
  The bundle the specification promises for a Question: its id and label, the labels of its
  Choice rows and the labels of its AnswerEntry rows, both in table order.
\<close>

definition spec_bundle :: "DatabaseService \<Rightarrow> Question_row \<Rightarrow> AnswerBundle" where
  "spec_bundle s qn =
     \<lparr>questionId = qn_question_id qn, questionLabel = qn_question_label qn,
      choices = map c_choice_label
        (filter (\<lambda>c. c_question_id c = qn_question_id qn) (Choice_table s)),
      answers = map a_answer_label
        (filter (\<lambda>a. a_question_id a = qn_question_id qn) (AnswerEntry_table s))\<rparr>"

text \<open>Ids are primary keys: no two rows of Room, Quiz or Question share one.\<close>

definition primary_keys :: "DatabaseService \<Rightarrow> bool" where
  "primary_keys s =
     (distinct (map r_room_id (Room_table s)) \<and> distinct (map qz_quiz_id (Quiz_table s)) \<and>
      distinct (map qn_question_id (Question_table s)))"

text \<open>Every id in a table was drawn from the table's counter: it lies below the counter.\<close>

definition serial_ids :: "DatabaseService \<Rightarrow> bool" where
  "serial_ids s =
     ((\<forall>r \<in> set (Room_table s). r_room_id r < Room_seq s) \<and>
      (\<forall>q \<in> set (Quiz_table s). qz_quiz_id q < Quiz_seq s) \<and>
      (\<forall>q \<in> set (Question_table s). qn_question_id q < Question_seq s))"

text \<open>
  A run of submissions, each a question id, a participant id and an answer label, handed to
  \<open>createAnswer\<close> one after the other.
\<close>

definition submit_all :: "(nat \<times> string \<times> string) list \<Rightarrow> DatabaseService \<Rightarrow> DatabaseService" where
  "submit_all subs s =
     foldl (\<lambda>t (qId, participantId, answerLabel).
              snd (createAnswer qId participantId answerLabel t)) s subs"

text \<open>
  The calls a client of the service can make on its content, and the service after each.
  \<open>issued\<close> is what a call sent to the pool.
\<close>

datatype call =
    GetAllQuestionsByEventKey string
  | GetAllChoicesByQuestion nat
  | CreateAnswer nat string string
  | CreateRoom string string string
  | CreateQuiz int string nat
  | CreateQuestionAndChoices string "string option" nat "string list option"
  | CreateQuestion string "string option" nat
  | CreateChoices nat "string list"
  | GetAllAnswersByQuiz nat
  | GetRoomByEventKey string
  | GetAllQuizzesByEventKey string
  | UpdateQuiz nat int string
  | UpdateQuestion nat string "string option"
  | GetAllRoomsByPresenter string
  | GetAllAnswersByQuestion nat
  | GetAllAnswersByEventKey string

fun run :: "call \<Rightarrow> DatabaseService \<Rightarrow> DatabaseService" where
  "run (GetAllQuestionsByEventKey eventKey) s = snd (getAllQuestionsByEventKey eventKey s)"
| "run (GetAllChoicesByQuestion qId) s = snd (getAllChoicesByQuestion qId s)"
| "run (CreateAnswer qId participantId answerLabel) s =
     snd (createAnswer qId participantId answerLabel s)"
| "run (CreateRoom eventKey name presenterId) s = snd (createRoom eventKey name presenterId s)"
| "run (CreateQuiz maxDuration title roomId) s = snd (createQuiz maxDuration title roomId s)"
| "run (CreateQuestionAndChoices qLabel correctAnswer quizId choiceLabels) s =
     snd (createQuestionAndChoices qLabel correctAnswer quizId choiceLabels s)"
| "run (CreateQuestion qLabel correctAnswer quizId) s =
     snd (createQuestion qLabel correctAnswer quizId s)"
| "run (CreateChoices qId choiceLabels) s = createChoices qId choiceLabels s"
| "run (GetAllAnswersByQuiz quizId) s = snd (getAllAnswersByQuiz quizId s)"
| "run (GetRoomByEventKey eventKey) s = snd (getRoomByEventKey eventKey s)"
| "run (GetAllQuizzesByEventKey eventKey) s = snd (getAllQuizzesByEventKey eventKey s)"
| "run (UpdateQuiz quizId maxDuration title) s = snd (updateQuiz quizId maxDuration title s)"
| "run (UpdateQuestion qId qLabel correctAnswer) s =
     snd (updateQuestion qId qLabel correctAnswer s)"
| "run (GetAllRoomsByPresenter presenterId) s = snd (getAllRoomsByPresenter presenterId s)"
| "run (GetAllAnswersByQuestion qId) s = snd (getAllAnswersByQuestion qId s)"
| "run (GetAllAnswersByEventKey eventKey) s = snd (getAllAnswersByEventKey eventKey s)"

definition issued :: "call \<Rightarrow> DatabaseService \<Rightarrow> statement list" where
  "issued c s = drop (length (sent s)) (sent (run c s))"

text \<open>
  The shape of a call: which operation it is, which optional arguments are present and how
  many choice labels it carries, with every argument value blanked.
\<close>

fun shape :: "call \<Rightarrow> call" where
  "shape (GetAllQuestionsByEventKey eventKey) = GetAllQuestionsByEventKey []"
| "shape (GetAllChoicesByQuestion qId) = GetAllChoicesByQuestion 0"
| "shape (CreateAnswer qId participantId answerLabel) = CreateAnswer 0 [] []"
| "shape (CreateRoom eventKey name presenterId) = CreateRoom [] [] []"
| "shape (CreateQuiz maxDuration title roomId) = CreateQuiz 0 [] 0"
| "shape (CreateQuestionAndChoices qLabel correctAnswer quizId choiceLabels) =
     CreateQuestionAndChoices [] (map_option (\<lambda>_. []) correctAnswer) 0
       (map_option (map (\<lambda>_. [])) choiceLabels)"
| "shape (CreateQuestion qLabel correctAnswer quizId) =
     CreateQuestion [] (map_option (\<lambda>_. []) correctAnswer) 0"
| "shape (CreateChoices qId choiceLabels) = CreateChoices 0 (map (\<lambda>_. []) choiceLabels)"
| "shape (GetAllAnswersByQuiz quizId) = GetAllAnswersByQuiz 0"
| "shape (GetRoomByEventKey eventKey) = GetRoomByEventKey []"
| "shape (GetAllQuizzesByEventKey eventKey) = GetAllQuizzesByEventKey []"
| "shape (UpdateQuiz quizId maxDuration title) = UpdateQuiz 0 0 []"
| "shape (UpdateQuestion qId qLabel correctAnswer) =
     UpdateQuestion 0 [] (map_option (\<lambda>_. []) correctAnswer)"
| "shape (GetAllRoomsByPresenter presenterId) = GetAllRoomsByPresenter []"
| "shape (GetAllAnswersByQuestion qId) = GetAllAnswersByQuestion 0"
| "shape (GetAllAnswersByEventKey eventKey) = GetAllAnswersByEventKey []"

text \<open>
  A service for the examples: the room of the specification's scenario with its quiz, its
  question "2+2?", the choices 3, 4 and 5 and one answer; an open question nobody has
  answered; and a second room without any quiz.
\<close>

definition example_service :: DatabaseService where
  "example_service =
     \<lparr>SCHEMA_NAME = ''quiz'',
      Room_table =
        [\<lparr>r_room_id = 1, r_event_key = ''abc123de'', r_room_name = ''Room1'',
          r_presenter_id = ''p1''\<rparr>,
         \<lparr>r_room_id = 2, r_event_key = ''0f9e8d7c'', r_room_name = ''Room2'',
          r_presenter_id = ''p1''\<rparr>],
      Quiz_table =
        [\<lparr>qz_quiz_id = 1, qz_max_duration = 10, qz_title = ''Q1'', qz_room_id = 1\<rparr>],
      Question_table =
        [\<lparr>qn_question_id = 1, qn_question_label = ''2+2?'', qn_correct_answer = Some ''4'',
          qn_quiz_id = 1\<rparr>,
         \<lparr>qn_question_id = 2, qn_question_label = ''Why?'', qn_correct_answer = None,
          qn_quiz_id = 1\<rparr>],
      Choice_table =
        [\<lparr>c_choice_id = 1, c_choice_label = ''3'', c_question_id = 1\<rparr>,
         \<lparr>c_choice_id = 2, c_choice_label = ''4'', c_question_id = 1\<rparr>,
         \<lparr>c_choice_id = 3, c_choice_label = ''5'', c_question_id = 1\<rparr>],
      AnswerEntry_table =
        [\<lparr>a_question_id = 1, a_participant_id = ''u1'', a_answer_label = ''4''\<rparr>],
      Room_seq = 3, Quiz_seq = 2, Question_seq = 3, Choice_seq = 4,
      sent = []\<rparr>"

text \<open>A random source for the examples: its first identifier collides, its second is free.\<close>

definition example_uuidv4 :: "nat \<Rightarrow> string" where
  "example_uuidv4 n =
     (if n = 0 then ''abc123de-0000-4000-8000-000000000000''
      else ''1b4e28ba-2fa1-41d2-883f-0016d3cca427'')"

text \<open>
  The format of the identifiers the random source yields (the uuid library is external):
  36 characters, each a lower-case hexadecimal digit or a hyphen.
\<close>

definition uuid_format :: "string \<Rightarrow> bool" where
  "uuid_format u = (length u = 36 \<and> (\<forall>c \<in> set u. c \<in> set ''0123456789abcdef-''))"

text \<open>
  What a returned triple (key, number of identifiers drawn, service) has to satisfy: the key
  is the first candidate from the \<open>n\<close>-th on that no room carries, and the Room table is
  untouched.
\<close>

definition returned_key_ok ::
  "(nat \<Rightarrow> string) \<Rightarrow> nat \<Rightarrow> DatabaseService \<Rightarrow> string \<times> nat \<times> DatabaseService \<Rightarrow> bool" where
  "returned_key_ok uuidv4 n s y =
     (case y of (eventKey, n', s') \<Rightarrow>
        eventKey \<notin> r_event_key ` set (Room_table s) \<and> Room_table s' = Room_table s \<and>
        (\<exists>m\<ge>n. n' = Suc m \<and> eventKey = take 8 (uuidv4 m) \<and>
           (\<forall>j. n \<le> j \<and> j < m \<longrightarrow> take 8 (uuidv4 j) \<in> r_event_key ` set (Room_table s))))"

text \<open>
  What the log of a returned triple has to show: the last statement sent is the uniqueness
  check with the returned key spliced into its text, and it binds no value.
\<close>

definition last_sent_ok ::
  "(nat \<Rightarrow> string) \<Rightarrow> nat \<Rightarrow> DatabaseService \<Rightarrow> string \<times> nat \<times> DatabaseService \<Rightarrow> bool" where
  "last_sent_ok uuidv4 n s y =
     (case y of (eventKey, n', s') \<Rightarrow>
        SCHEMA_NAME s' = SCHEMA_NAME s \<and> sent s' \<noteq> [] \<and>
        last (sent s') =
          \<lparr>sql = generateUniqueEventKey_query (SCHEMA_NAME s) eventKey, params = []\<rparr>)"

text \<open>A service over a freshly created schema: no rows, every counter at its first value.\<close>

definition empty_service :: "string \<Rightarrow> DatabaseService" where
  "empty_service sn =
     \<lparr>SCHEMA_NAME = sn, Room_table = [], Quiz_table = [], Question_table = [],
      Choice_table = [], AnswerEntry_table = [],
      Room_seq = 1, Quiz_seq = 1, Question_seq = 1, Choice_seq = 1, sent = []\<rparr>"

section \<open>Facts about the store and the reading operations\<close>

lemma push_all_acc: "foldl (\<lambda>tmp x. tmp @ [x]) acc xs = acc @ xs"
  by (induction xs arbitrary: acc) simp_all

lemma push_all_id: "push_all xs = xs"
  by (simp add: push_all_def push_all_acc)

lemma fst_getAllChoicesByQuestion:
  "fst (getAllChoicesByQuestion q s) =
     \<lparr>rows = filter (\<lambda>c. c_question_id c = q) (Choice_table s),
      rowCount = length (filter (\<lambda>c. c_question_id c = q) (Choice_table s))\<rparr>"
  by (simp add: getAllChoicesByQuestion_def pool_query_def store_select_def Let_def)

lemma snd_getAllChoicesByQuestion:
  "snd (getAllChoicesByQuestion q s) =
     s\<lparr>sent := sent s @
        [\<lparr>sql = getAllChoicesByQuestion_query (SCHEMA_NAME s), params = [PId q]\<rparr>]\<rparr>"
  by (simp add: getAllChoicesByQuestion_def pool_query_def store_select_def Let_def)

lemma fst_getAllAnswersByQuestion:
  "fst (getAllAnswersByQuestion q s) =
     \<lparr>rows = filter (\<lambda>a. a_question_id a = q) (AnswerEntry_table s),
      rowCount = length (filter (\<lambda>a. a_question_id a = q) (AnswerEntry_table s))\<rparr>"
  by (simp add: getAllAnswersByQuestion_def pool_query_def store_select_def Let_def)

lemma snd_getAllAnswersByQuestion:
  "snd (getAllAnswersByQuestion q s) =
     s\<lparr>sent := sent s @
        [\<lparr>sql = getAllAnswersByQuestion_query (SCHEMA_NAME s), params = [PId q]\<rparr>]\<rparr>"
  by (simp add: getAllAnswersByQuestion_def pool_query_def store_select_def Let_def)

lemma fst_getAllQuestionsByEventKey:
  "fst (getAllQuestionsByEventKey k s) =
     \<lparr>rows = sort_key qn_question_id (join_Question_Quiz_Room k s),
      rowCount = length (join_Question_Quiz_Room k s)\<rparr>"
  by (simp add: getAllQuestionsByEventKey_def pool_query_def store_select_def Let_def
      join_Question_Quiz_Room_def)

lemma snd_getAllQuestionsByEventKey:
  "snd (getAllQuestionsByEventKey k s) =
     s\<lparr>sent := sent s @
        [\<lparr>sql = getAllQuestionsByEventKey_query (SCHEMA_NAME s), params = [PString k]\<rparr>]\<rparr>"
  by (simp add: getAllQuestionsByEventKey_def pool_query_def store_select_def Let_def)

lemma fst_getAllAnswersByEventKey_loop:
  "fst (getAllAnswersByEventKey_loop qs acc s) =
     acc @ map (\<lambda>q. \<lparr>questionId = i_questionId q, questionLabel = i_questionLabel q,
        choices = map c_choice_label
          (filter (\<lambda>c. c_question_id c = i_questionId q) (Choice_table s)),
        answers = map a_answer_label
          (filter (\<lambda>a. a_question_id a = i_questionId q) (AnswerEntry_table s))\<rparr>) qs"
proof (induction qs arbitrary: acc s)
  case Nil
  show ?case by simp
next
  case (Cons q qs)
  show ?case
    by (simp add: split_def Let_def Cons.IH push_all_id fst_getAllChoicesByQuestion
        snd_getAllChoicesByQuestion fst_getAllAnswersByQuestion snd_getAllAnswersByQuestion)
qed

lemma fst_getAllAnswersByEventKey:
  "fst (getAllAnswersByEventKey k s) =
     map (spec_bundle s) (sort_key qn_question_id (join_Question_Quiz_Room k s))"
  by (simp add: getAllAnswersByEventKey_def split_def Let_def fst_getAllAnswersByEventKey_loop
      fst_getAllQuestionsByEventKey snd_getAllQuestionsByEventKey spec_bundle_def o_def)

lemma concat_if_unique:
  "distinct (map f xs) \<Longrightarrow> (\<And>x. P x \<Longrightarrow> f x = k) \<Longrightarrow>
   concat (map (\<lambda>x. if P x then [c] else []) xs) = (if \<exists>x\<in>set xs. P x then [c] else [])"
proof (induction xs)
  case Nil
  show ?case by simp
next
  case (Cons x xs)
  have IH: "concat (map (\<lambda>x. if P x then [c] else []) xs) =
            (if \<exists>x\<in>set xs. P x then [c] else [])"
    using Cons by simp
  show ?case
  proof (cases "P x")
    case True
    have "\<not> (\<exists>y\<in>set xs. P y)"
    proof
      assume "\<exists>y\<in>set xs. P y"
      then obtain y where y: "y \<in> set xs" "P y" by blast
      then have "f y = f x" using Cons.prems(2) True by simp
      moreover have "f x \<notin> f ` set xs" using Cons.prems(1) by simp
      ultimately show False using y(1) by (metis imageI)
    qed
    then show ?thesis using True IH by simp
  next
    case False
    then show ?thesis using IH by simp
  qed
qed

lemma concat_if_filter: "concat (map (\<lambda>x. if P x then [x] else []) xs) = filter P xs"
  by (induction xs) simp_all

lemma join_is_filter:
  assumes "primary_keys s"
  shows "join_Question_Quiz_Room k s = filter (spec_belongs_to_room s k) (Question_table s)"
proof -
  have rooms: "concat (map (\<lambda>r. if r_event_key r = k \<and> r_room_id r = qz_room_id qz \<and>
                 qn_quiz_id qn = qz_quiz_id qz then [qn] else []) (Room_table s)) =
        (if \<exists>r\<in>set (Room_table s). r_event_key r = k \<and> r_room_id r = qz_room_id qz \<and>
                 qn_quiz_id qn = qz_quiz_id qz then [qn] else [])"
    for qz :: Quiz_row and qn :: Question_row
    using assms by (intro concat_if_unique [where f = r_room_id and k = "qz_room_id qz"])
      (simp_all add: primary_keys_def)
  have quizzes: "concat (map (\<lambda>qz. if \<exists>r\<in>set (Room_table s). r_event_key r = k \<and>
                 r_room_id r = qz_room_id qz \<and> qn_quiz_id qn = qz_quiz_id qz then [qn] else [])
                 (Quiz_table s)) =
        (if spec_belongs_to_room s k qn then [qn] else [])"
    for qn :: Question_row
    unfolding spec_belongs_to_room_def
    using assms by (intro concat_if_unique [where f = qz_quiz_id and k = "qn_quiz_id qn"])
      (auto simp add: primary_keys_def)
  show ?thesis
    by (simp add: join_Question_Quiz_Room_def rooms quizzes concat_if_filter)
qed

lemma set_join:
  "set (join_Question_Quiz_Room k s) =
     {qn \<in> set (Question_table s). spec_belongs_to_room s k qn}"
  by (auto simp add: join_Question_Quiz_Room_def spec_belongs_to_room_def)

lemma example_primary_keys: "primary_keys example_service"
  by (simp add: primary_keys_def example_service_def)

section \<open>Aggregation\<close>

text \<open>
  C1. When ids are primary keys, \<open>getAllAnswersByEventKey\<close> returns exactly one bundle for
  every Question that belongs to the Room with the event key, across all Quizzes of the
  room: the promised bundle of each such Question (its label, the labels of its Choice
  rows, empty when it has none, and the labels of its AnswerEntry rows), the bundles in
  strictly ascending order of question id.
\<close>

theorem getAllAnswersByEventKey_bundles:
  assumes "primary_keys s"
  shows "fst (getAllAnswersByEventKey eventKey s) =
           map (spec_bundle s) (sort_key qn_question_id
             (filter (spec_belongs_to_room s eventKey) (Question_table s))) \<and>
         sorted_wrt (<) (map questionId (fst (getAllAnswersByEventKey eventKey s)))"
proof -
  let ?qs = "sort_key qn_question_id
               (filter (spec_belongs_to_room s eventKey) (Question_table s))"
  have res: "fst (getAllAnswersByEventKey eventKey s) = map (spec_bundle s) ?qs"
    by (simp add: fst_getAllAnswersByEventKey join_is_filter [OF assms])
  have ids: "map questionId (map (spec_bundle s) ?qs) = map qn_question_id ?qs"
    by (simp add: spec_bundle_def o_def)
  have "distinct (map qn_question_id
          (filter (spec_belongs_to_room s eventKey) (Question_table s)))"
    using assms by (simp add: primary_keys_def distinct_map_filter)
  then have "distinct (map qn_question_id ?qs)"
    by (simp add: distinct_map inj_on_def)
  moreover have "sorted (map qn_question_id ?qs)"
    by simp
  ultimately have "sorted_wrt (<) (map qn_question_id ?qs)"
    by (simp add: strict_sorted_iff)
  then have "sorted_wrt (<) (map questionId (map (spec_bundle s) ?qs))"
    by (simp only: ids)
  then show ?thesis by (simp only: res simp_thms)
qed

theorem getAllAnswersByEventKey_bundles_witness:
  "primary_keys example_service \<and>
   fst (getAllAnswersByEventKey ''abc123de'' example_service) =
     [\<lparr>questionId = 1, questionLabel = ''2+2?'', choices = [''3'', ''4'', ''5''],
       answers = [''4'']\<rparr>,
      \<lparr>questionId = 2, questionLabel = ''Why?'', choices = [], answers = []\<rparr>]"
  using getAllAnswersByEventKey_bundles [OF example_primary_keys, of "''abc123de''"]
    example_primary_keys
  by (simp add: spec_bundle_def spec_belongs_to_room_def example_service_def)

lemma bundle_answers:
  assumes "b \<in> set (fst (getAllAnswersByEventKey k s))"
  shows "answers b = map a_answer_label
           (filter (\<lambda>a. a_question_id a = questionId b) (AnswerEntry_table s))"
  using assms by (auto simp add: fst_getAllAnswersByEventKey spec_bundle_def)

lemma snd_createAnswer:
  "snd (createAnswer q p l s) =
     s\<lparr>sent := sent s @ [\<lparr>sql = createAnswer_query (SCHEMA_NAME s),
                            params = [PId q, PString p, PString l]\<rparr>],
       AnswerEntry_table := AnswerEntry_table s @
         [\<lparr>a_question_id = q, a_participant_id = p, a_answer_label = l\<rparr>]\<rparr>"
  by (simp add: createAnswer_def pool_query_def insert_AnswerEntry_def Let_def)

lemma fst_createAnswer: "fst (createAnswer q p l s) = \<lparr>rows = [], rowCount = 1\<rparr>"
  by (simp add: createAnswer_def pool_query_def insert_AnswerEntry_def Let_def)

lemma AnswerEntry_table_submit_all:
  "AnswerEntry_table (submit_all subs s) =
     AnswerEntry_table s @
     map (\<lambda>(q, p, l). \<lparr>a_question_id = q, a_participant_id = p, a_answer_label = l\<rparr>) subs"
  unfolding submit_all_def
  by (induction subs arbitrary: s) (simp_all add: split_def snd_createAnswer)

lemma frame_submit_all:
  "Room_table (submit_all subs s) = Room_table s \<and>
   Quiz_table (submit_all subs s) = Quiz_table s \<and>
   Question_table (submit_all subs s) = Question_table s \<and>
   Choice_table (submit_all subs s) = Choice_table s"
  unfolding submit_all_def
  by (induction subs arbitrary: s) (simp_all add: split_def snd_createAnswer)

lemma filter_map_rows:
  "map a_answer_label (filter (\<lambda>a. a_question_id a = q)
     (map (\<lambda>(q, p, l). \<lparr>a_question_id = q, a_participant_id = p, a_answer_label = l\<rparr>) subs)) =
   map (\<lambda>(q, p, l). l) (filter (\<lambda>(q', p, l). q' = q) subs)"
  by (induction subs) (auto simp add: split_def)

lemma join_submit_all:
  "join_Question_Quiz_Room k (submit_all subs s) = join_Question_Quiz_Room k s"
  by (simp add: join_Question_Quiz_Room_def frame_submit_all)

lemma example_join:
  "join_Question_Quiz_Room ''abc123de'' example_service =
     [\<lparr>qn_question_id = 1, qn_question_label = ''2+2?'', qn_correct_answer = Some ''4'',
       qn_quiz_id = 1\<rparr>,
      \<lparr>qn_question_id = 2, qn_question_label = ''Why?'', qn_correct_answer = None,
       qn_quiz_id = 1\<rparr>]"
  by (simp add: join_Question_Quiz_Room_def example_service_def)

text \<open>
  C2. After any run of submissions, the bundle of a question holds the labels of the
  AnswerEntry rows the question had before, followed by the labels of the submissions for
  that question in the order they were submitted, duplicates included: as many labels as
  there are rows for the question.
\<close>

theorem answers_in_submission_order:
  assumes "b \<in> set (fst (getAllAnswersByEventKey eventKey (submit_all subs s)))"
  shows "answers b =
           map a_answer_label
             (filter (\<lambda>a. a_question_id a = questionId b) (AnswerEntry_table s)) @
           map (\<lambda>(q, p, l). l) (filter (\<lambda>(q, p, l). q = questionId b) subs) \<and>
         length (answers b) =
           length (filter (\<lambda>a. a_question_id a = questionId b)
                     (AnswerEntry_table (submit_all subs s)))"
proof -
  have "answers b = map a_answer_label
          (filter (\<lambda>a. a_question_id a = questionId b) (AnswerEntry_table (submit_all subs s)))"
    using assms by (rule bundle_answers)
  then have "length (answers b) = length (filter (\<lambda>a. a_question_id a = questionId b)
                     (AnswerEntry_table (submit_all subs s)))"
    and "answers b =
           map a_answer_label
             (filter (\<lambda>a. a_question_id a = questionId b) (AnswerEntry_table s)) @
           map (\<lambda>(q, p, l). l) (filter (\<lambda>(q, p, l). q = questionId b) subs)"
    by (simp, simp add: AnswerEntry_table_submit_all filter_map_rows)
  then show ?thesis by simp
qed

theorem answers_in_submission_order_witness:
  "\<lparr>questionId = 2, questionLabel = ''Why?'', choices = [],
     answers = [''because'', ''dunno'', ''because'']\<rparr>
     \<in> set (fst (getAllAnswersByEventKey ''abc123de''
          (submit_all [(2, ''u1'', ''because''), (1, ''u2'', ''5''), (2, ''u2'', ''dunno''),
                       (2, ''u1'', ''because'')] example_service))) \<and>
   length [''because'', ''dunno'', ''because''] =
     length (filter (\<lambda>a. a_question_id a = 2)
       (AnswerEntry_table
          (submit_all [(2, ''u1'', ''because''), (1, ''u2'', ''5''), (2, ''u2'', ''dunno''),
                       (2, ''u1'', ''because'')] example_service)))"
proof -
  let ?subs = "[(2::nat, ''u1'', ''because''), (1, ''u2'', ''5''), (2, ''u2'', ''dunno''),
                (2, ''u1'', ''because'')]"
  let ?b = "\<lparr>questionId = 2, questionLabel = ''Why?'', choices = [],
             answers = [''because'', ''dunno'', ''because'']\<rparr>"
  have res: "fst (getAllAnswersByEventKey ''abc123de'' (submit_all ?subs example_service)) =
      [\<lparr>questionId = 1, questionLabel = ''2+2?'', choices = [''3'', ''4'', ''5''],
        answers = [''4'', ''5'']\<rparr>, ?b]"
    by (simp add: fst_getAllAnswersByEventKey join_submit_all example_join spec_bundle_def
        frame_submit_all AnswerEntry_table_submit_all)
      (simp add: example_service_def)
  have mem: "?b \<in> set (fst (getAllAnswersByEventKey ''abc123de''
                (submit_all ?subs example_service)))"
    by (simp only: res list.set insert_iff simp_thms)
  show ?thesis using answers_in_submission_order [OF mem] mem by simp
qed

text \<open>
  C3. A question of the room without Choice rows and without AnswerEntry rows still has
  its bundle in the result, with both lists empty; a room none of whose quizzes has a
  question yields the empty sequence; and so does an event key that no room carries. The
  aggregation has no failing branch: it returns a sequence in every case.
\<close>

theorem getAllAnswersByEventKey_empty_cases:
  "(qn \<in> set (Question_table s) \<and> spec_belongs_to_room s eventKey qn \<and>
    (\<forall>c \<in> set (Choice_table s). c_question_id c \<noteq> qn_question_id qn) \<and>
    (\<forall>a \<in> set (AnswerEntry_table s). a_question_id a \<noteq> qn_question_id qn) \<longrightarrow>
      \<lparr>questionId = qn_question_id qn, questionLabel = qn_question_label qn,
       choices = [], answers = []\<rparr> \<in> set (fst (getAllAnswersByEventKey eventKey s))) \<and>
   ((\<forall>q \<in> set (Question_table s). \<not> spec_belongs_to_room s eventKey q) \<longrightarrow>
      fst (getAllAnswersByEventKey eventKey s) = []) \<and>
   ((\<forall>r \<in> set (Room_table s). r_event_key r \<noteq> eventKey) \<longrightarrow>
      fst (getAllAnswersByEventKey eventKey s) = []) \<and>
   length (fst (getAllAnswersByEventKey eventKey s)) =
     length (join_Question_Quiz_Room eventKey s)"
proof -
  have A: "\<lparr>questionId = qn_question_id qn, questionLabel = qn_question_label qn,
       choices = [], answers = []\<rparr> \<in> set (fst (getAllAnswersByEventKey eventKey s))"
    if "qn \<in> set (Question_table s)" "spec_belongs_to_room s eventKey qn"
      "\<forall>c \<in> set (Choice_table s). c_question_id c \<noteq> qn_question_id qn"
      "\<forall>a \<in> set (AnswerEntry_table s). a_question_id a \<noteq> qn_question_id qn"
  proof -
    have "qn \<in> set (join_Question_Quiz_Room eventKey s)"
      using that(1,2) by (simp add: set_join)
    moreover have "spec_bundle s qn = \<lparr>questionId = qn_question_id qn,
        questionLabel = qn_question_label qn, choices = [], answers = []\<rparr>"
      using that(3,4) by (simp add: spec_bundle_def filter_empty_conv)
    ultimately show ?thesis
      by (simp add: fst_getAllAnswersByEventKey) (metis imageI)
  qed
  have B: "fst (getAllAnswersByEventKey eventKey s) = []"
    if "\<forall>q \<in> set (Question_table s). \<not> spec_belongs_to_room s eventKey q"
  proof -
    have "set (join_Question_Quiz_Room eventKey s) = {}"
      using that by (auto simp add: set_join)
    then show ?thesis by (simp add: fst_getAllAnswersByEventKey)
  qed
  have C: "fst (getAllAnswersByEventKey eventKey s) = []"
    if "\<forall>r \<in> set (Room_table s). r_event_key r \<noteq> eventKey"
  proof -
    have "set (join_Question_Quiz_Room eventKey s) = {}"
      using that by (auto simp add: set_join spec_belongs_to_room_def)
    then show ?thesis by (simp add: fst_getAllAnswersByEventKey)
  qed
  have D: "length (fst (getAllAnswersByEventKey eventKey s)) =
     length (join_Question_Quiz_Room eventKey s)"
    by (simp add: fst_getAllAnswersByEventKey)
  show ?thesis using A B C D by blast
qed


theorem getAllAnswersByEventKey_empty_cases_witness:
  "\<lparr>questionId = 2, questionLabel = ''Why?'', choices = [], answers = []\<rparr>
     \<in> set (fst (getAllAnswersByEventKey ''abc123de'' example_service)) \<and>
   fst (getAllAnswersByEventKey ''0f9e8d7c'' example_service) = [] \<and>
   fst (getAllAnswersByEventKey ''ffffffff'' example_service) = []"
proof -
  let ?qn = "\<lparr>qn_question_id = 2, qn_question_label = ''Why?'', qn_correct_answer = None,
              qn_quiz_id = 1\<rparr>"
  have open_question: "?qn \<in> set (Question_table example_service) \<and>
      spec_belongs_to_room example_service ''abc123de'' ?qn \<and>
      (\<forall>c \<in> set (Choice_table example_service). c_question_id c \<noteq> qn_question_id ?qn) \<and>
      (\<forall>a \<in> set (AnswerEntry_table example_service). a_question_id a \<noteq> qn_question_id ?qn)"
    by (simp add: example_service_def spec_belongs_to_room_def)
  have no_question: "\<forall>q \<in> set (Question_table example_service).
      \<not> spec_belongs_to_room example_service ''0f9e8d7c'' q"
    by (simp add: example_service_def spec_belongs_to_room_def)
  have no_room: "\<forall>r \<in> set (Room_table example_service). r_event_key r \<noteq> ''ffffffff''"
    by (simp add: example_service_def)
  show ?thesis
    using getAllAnswersByEventKey_empty_cases [of ?qn example_service "''abc123de''"]
      getAllAnswersByEventKey_empty_cases [of ?qn example_service "''0f9e8d7c''"]
      getAllAnswersByEventKey_empty_cases [of ?qn example_service "''ffffffff''"]
      open_question no_question no_room
    by simp
qed

section \<open>Answer submission\<close>

lemma funpow_createAnswer:
  "((\<lambda>t. snd (createAnswer q p l t)) ^^ n) s = submit_all (replicate n (q, p, l)) s"
  unfolding submit_all_def
  by (induction n arbitrary: s) (simp_all add: funpow_Suc_right del: funpow.simps(2))

text \<open>
  C7. \<open>createAnswer\<close> appends one AnswerEntry row for whatever question id, participant id
  and label it is given, under no condition, and touches no other table; the same
  submission made \<open>n\<close> times leaves \<open>n\<close> rows, and the aggregation lists the label \<open>n\<close>
  more times in the bundle of that question.
\<close>

theorem createAnswer_unconditional:
  "fst (createAnswer q p l s) = \<lparr>rows = [], rowCount = 1\<rparr> \<and>
   AnswerEntry_table (snd (createAnswer q p l s)) =
     AnswerEntry_table s @ [\<lparr>a_question_id = q, a_participant_id = p, a_answer_label = l\<rparr>] \<and>
   Room_table (snd (createAnswer q p l s)) = Room_table s \<and>
   Quiz_table (snd (createAnswer q p l s)) = Quiz_table s \<and>
   Question_table (snd (createAnswer q p l s)) = Question_table s \<and>
   Choice_table (snd (createAnswer q p l s)) = Choice_table s \<and>
   AnswerEntry_table (((\<lambda>t. snd (createAnswer q p l t)) ^^ n) s) =
     AnswerEntry_table s @
     replicate n \<lparr>a_question_id = q, a_participant_id = p, a_answer_label = l\<rparr> \<and>
   fst (getAllAnswersByEventKey eventKey (((\<lambda>t. snd (createAnswer q p l t)) ^^ n) s)) =
     map (\<lambda>b. if questionId b = q then b\<lparr>answers := answers b @ replicate n l\<rparr> else b)
       (fst (getAllAnswersByEventKey eventKey s))"
proof -
  have one: "fst (createAnswer q p l s) = \<lparr>rows = [], rowCount = 1\<rparr> \<and>
     AnswerEntry_table (snd (createAnswer q p l s)) =
       AnswerEntry_table s @ [\<lparr>a_question_id = q, a_participant_id = p, a_answer_label = l\<rparr>] \<and>
     Room_table (snd (createAnswer q p l s)) = Room_table s \<and>
     Quiz_table (snd (createAnswer q p l s)) = Quiz_table s \<and>
     Question_table (snd (createAnswer q p l s)) = Question_table s \<and>
     Choice_table (snd (createAnswer q p l s)) = Choice_table s"
    by (simp add: fst_createAnswer snd_createAnswer)
  have many: "AnswerEntry_table (((\<lambda>t. snd (createAnswer q p l t)) ^^ n) s) =
     AnswerEntry_table s @
     replicate n \<lparr>a_question_id = q, a_participant_id = p, a_answer_label = l\<rparr>"
    by (simp add: funpow_createAnswer AnswerEntry_table_submit_all map_replicate_const)
  have bun: "spec_bundle (submit_all (replicate n (q, p, l)) s) qn =
      (if questionId (spec_bundle s qn) = q
       then (spec_bundle s qn)\<lparr>answers := answers (spec_bundle s qn) @ replicate n l\<rparr>
       else spec_bundle s qn)" for qn :: Question_row
    by (simp add: spec_bundle_def frame_submit_all AnswerEntry_table_submit_all
        map_replicate_const)
  have agg: "fst (getAllAnswersByEventKey eventKey
                (((\<lambda>t. snd (createAnswer q p l t)) ^^ n) s)) =
     map (\<lambda>b. if questionId b = q then b\<lparr>answers := answers b @ replicate n l\<rparr> else b)
       (fst (getAllAnswersByEventKey eventKey s))"
    by (simp add: funpow_createAnswer fst_getAllAnswersByEventKey join_submit_all bun
        o_def)
  show ?thesis using one many agg by simp
qed

theorem createAnswer_unconditional_witness:
  "AnswerEntry_table (snd (createAnswer 99 ''u1'' ''not a choice'' example_service)) =
     AnswerEntry_table example_service @
     [\<lparr>a_question_id = 99, a_participant_id = ''u1'', a_answer_label = ''not a choice''\<rparr>] \<and>
   fst (getAllAnswersByEventKey ''abc123de''
          (((\<lambda>t. snd (createAnswer 1 ''u1'' ''4'' t)) ^^ 2) example_service)) =
     [\<lparr>questionId = 1, questionLabel = ''2+2?'', choices = [''3'', ''4'', ''5''],
       answers = [''4'', ''4'', ''4'']\<rparr>,
      \<lparr>questionId = 2, questionLabel = ''Why?'', choices = [], answers = []\<rparr>]"
proof -
  have before: "fst (getAllAnswersByEventKey ''abc123de'' example_service) =
     [\<lparr>questionId = 1, questionLabel = ''2+2?'', choices = [''3'', ''4'', ''5''],
       answers = [''4'']\<rparr>,
      \<lparr>questionId = 2, questionLabel = ''Why?'', choices = [], answers = []\<rparr>]"
    by (simp add: fst_getAllAnswersByEventKey example_join spec_bundle_def)
      (simp add: example_service_def)
  show ?thesis
    using createAnswer_unconditional [of 99 "''u1''" "''not a choice''" example_service]
      createAnswer_unconditional [where q = 1 and p = "''u1''" and l = "''4''" and
        s = example_service and eventKey = "''abc123de''" and n = 2]
    by (simp add: before numeral_2_eq_2)
qed

section \<open>Event keys\<close>

lemma uniqueness_check:
  "pool_query (generateUniqueEventKey_query (SCHEMA_NAME s) k) []
     (store_select (\<lambda>t. map r_event_key (filter (\<lambda>r. r_event_key r = k) (Room_table t)))) s =
   (\<lparr>rows = map r_event_key (filter (\<lambda>r. r_event_key r = k) (Room_table s)),
     rowCount = length (filter (\<lambda>r. r_event_key r = k) (Room_table s))\<rparr>,
    s\<lparr>sent := sent s @
       [\<lparr>sql = generateUniqueEventKey_query (SCHEMA_NAME s) k, params = []\<rparr>]\<rparr>)"
  by (simp add: pool_query_def store_select_def)

lemma collides_iff:
  "0 < length (filter (\<lambda>r. r_event_key r = k) (Room_table s)) \<longleftrightarrow>
   k \<in> r_event_key ` set (Room_table s)"
  by (auto simp add: filter_empty_conv)

lemma generateUniqueEventKey_unfold:
  "generateUniqueEventKey uuidv4 n s =
     (if take 8 (uuidv4 n) \<in> r_event_key ` set (Room_table s)
      then generateUniqueEventKey uuidv4 (Suc n)
             (s\<lparr>sent := sent s @
                [\<lparr>sql = generateUniqueEventKey_query (SCHEMA_NAME s) (take 8 (uuidv4 n)),
                  params = []\<rparr>]\<rparr>)
      else Some (take 8 (uuidv4 n), Suc n,
             s\<lparr>sent := sent s @
                [\<lparr>sql = generateUniqueEventKey_query (SCHEMA_NAME s) (take 8 (uuidv4 n)),
                  params = []\<rparr>]\<rparr>))"
  by (subst generateUniqueEventKey.simps)
    (simp add: Let_def uniqueness_check collides_iff del: length_greater_0_conv)

lemma generateUniqueEventKey_partial:
  assumes "generateUniqueEventKey uuidv4 n s = Some y"
  shows "returned_key_ok uuidv4 n s y"
proof (rule generateUniqueEventKey.raw_induct [where P = returned_key_ok, OF _ assms],
    goal_cases)
  case (1 gen uuidv4 n s y)
  let ?k = "take 8 (uuidv4 n)"
  let ?s1 = "s\<lparr>sent := sent s @
                [\<lparr>sql = generateUniqueEventKey_query (SCHEMA_NAME s) ?k, params = []\<rparr>]\<rparr>"
  have body: "(if ?k \<in> r_event_key ` set (Room_table s)
               then gen uuidv4 (Suc n) ?s1 else Some (?k, Suc n, ?s1)) = Some y"
    using 1(2)
    by (simp add: Let_def uniqueness_check collides_iff del: length_greater_0_conv
        cong: if_cong)
  show ?case
  proof (cases "?k \<in> r_event_key ` set (Room_table s)")
    case True
    have "gen uuidv4 (Suc n) ?s1 = Some y"
      using body unfolding if_P [OF True] .
    then have "returned_key_ok uuidv4 (Suc n) ?s1 y" by (rule 1(1))
    then obtain eventKey n' s' m where y: "y = (eventKey, n', s')"
      and fresh: "eventKey \<notin> r_event_key ` set (Room_table s)"
      and tab: "Room_table s' = Room_table s"
      and m: "Suc n \<le> m" "n' = Suc m" "eventKey = take 8 (uuidv4 m)"
      and coll: "\<forall>j. Suc n \<le> j \<and> j < m \<longrightarrow> take 8 (uuidv4 j) \<in> r_event_key ` set (Room_table s)"
      by (auto simp add: returned_key_ok_def)
    have "\<forall>j. n \<le> j \<and> j < m \<longrightarrow> take 8 (uuidv4 j) \<in> r_event_key ` set (Room_table s)"
    proof (intro allI impI)
      fix j assume j: "n \<le> j \<and> j < m"
      show "take 8 (uuidv4 j) \<in> r_event_key ` set (Room_table s)"
      proof (cases "j = n")
        case True
        then show ?thesis using \<open>?k \<in> r_event_key ` set (Room_table s)\<close> by simp
      next
        case False
        then have "Suc n \<le> j \<and> j < m" using j by simp
        then show ?thesis using coll by blast
      qed
    qed
    moreover have "n \<le> m" using m(1) by simp
    ultimately show ?thesis
      using y fresh tab m(2,3) by (auto simp add: returned_key_ok_def)
  next
    case False
    have "Some (?k, Suc n, ?s1) = Some y"
      using body unfolding if_not_P [OF False] .
    then have "y = (?k, Suc n, ?s1)"
      by simp
    then show ?thesis using False by (auto simp add: returned_key_ok_def)
  qed
qed

lemma generateUniqueEventKey_returns:
  "take 8 (uuidv4 (n + d)) \<notin> r_event_key ` set (Room_table s) \<Longrightarrow>
   \<exists>y. generateUniqueEventKey uuidv4 n s = Some y"
proof (induction d arbitrary: n s)
  case 0
  then show ?case by (subst generateUniqueEventKey_unfold) simp
next
  case (Suc d)
  let ?s1 = "s\<lparr>sent := sent s @
       [\<lparr>sql = generateUniqueEventKey_query (SCHEMA_NAME s) (take 8 (uuidv4 n)),
         params = []\<rparr>]\<rparr>"
  have "take 8 (uuidv4 (Suc n + d)) \<notin> r_event_key ` set (Room_table ?s1)"
    using Suc.prems by simp
  then have "\<exists>y. generateUniqueEventKey uuidv4 (Suc n) ?s1 = Some y"
    by (rule Suc.IH)
  then show ?case by (subst generateUniqueEventKey_unfold) simp
qed

text \<open>
  C4. With a random source that yields identifiers of the UUID format,
  \<open>generateUniqueEventKey\<close>, whenever it returns, returns a token of eight characters that
  is the first candidate, from the current one on, equal to no \<open>event_key\<close> of the Room table
  it checked against; every candidate before it collided. It does return as soon as the
  source yields, now or later, a candidate that no room carries.
\<close>

theorem generateUniqueEventKey_fresh:
  assumes "\<forall>j. uuid_format (uuidv4 j)"
  shows "(generateUniqueEventKey uuidv4 n s = Some (eventKey, n', s') \<longrightarrow>
            length eventKey = 8 \<and>
            eventKey \<notin> r_event_key ` set (Room_table s) \<and>
            Room_table s' = Room_table s \<and>
            (\<exists>m\<ge>n. n' = Suc m \<and> eventKey = take 8 (uuidv4 m) \<and>
               (\<forall>j. n \<le> j \<and> j < m \<longrightarrow>
                  take 8 (uuidv4 j) \<in> r_event_key ` set (Room_table s)))) \<and>
         ((\<exists>m\<ge>n. take 8 (uuidv4 m) \<notin> r_event_key ` set (Room_table s)) \<longrightarrow>
            (\<exists>y. generateUniqueEventKey uuidv4 n s = Some y))"
proof (intro conjI impI)
  assume ret: "generateUniqueEventKey uuidv4 n s = Some (eventKey, n', s')"
  have ok: "returned_key_ok uuidv4 n s (eventKey, n', s')"
    using ret by (rule generateUniqueEventKey_partial)
  then show "eventKey \<notin> r_event_key ` set (Room_table s)"
    and "Room_table s' = Room_table s"
    and "\<exists>m\<ge>n. n' = Suc m \<and> eventKey = take 8 (uuidv4 m) \<and>
               (\<forall>j. n \<le> j \<and> j < m \<longrightarrow>
                  take 8 (uuidv4 j) \<in> r_event_key ` set (Room_table s))"
    by (simp_all add: returned_key_ok_def)
  from ok obtain m where "eventKey = take 8 (uuidv4 m)"
    by (auto simp add: returned_key_ok_def)
  moreover have "length (uuidv4 m) = 36"
    using assms by (simp add: uuid_format_def)
  ultimately show "length eventKey = 8" by simp
next
  assume "\<exists>m\<ge>n. take 8 (uuidv4 m) \<notin> r_event_key ` set (Room_table s)"
  then obtain m where "n \<le> m" "take 8 (uuidv4 m) \<notin> r_event_key ` set (Room_table s)"
    by blast
  then have "take 8 (uuidv4 (n + (m - n))) \<notin> r_event_key ` set (Room_table s)"
    by simp
  then show "\<exists>y. generateUniqueEventKey uuidv4 n s = Some y"
    by (rule generateUniqueEventKey_returns)
qed

lemma example_uuid_format: "\<forall>j. uuid_format (example_uuidv4 j)"
  by (simp add: uuid_format_def example_uuidv4_def)



lemma example_generateUniqueEventKey:
  "generateUniqueEventKey example_uuidv4 0 example_service =
     Some (''1b4e28ba'', 2,
       example_service\<lparr>sent :=
         [\<lparr>sql = generateUniqueEventKey_query ''quiz'' ''abc123de'', params = []\<rparr>,
          \<lparr>sql = generateUniqueEventKey_query ''quiz'' ''1b4e28ba'', params = []\<rparr>]\<rparr>)"
proof -
  have first: "take 8 (example_uuidv4 0) = ''abc123de''"
    and second: "take 8 (example_uuidv4 (Suc 0)) = ''1b4e28ba''"
    by (simp_all add: example_uuidv4_def)
  have keys: "r_event_key ` set (Room_table example_service) = {''abc123de'', ''0f9e8d7c''}"
    by (simp add: example_service_def)
  have "generateUniqueEventKey example_uuidv4 0 example_service =
        generateUniqueEventKey example_uuidv4 (Suc 0)
          (example_service\<lparr>sent := sent example_service @
             [\<lparr>sql = generateUniqueEventKey_query (SCHEMA_NAME example_service) ''abc123de'',
               params = []\<rparr>]\<rparr>)"
    by (subst generateUniqueEventKey_unfold) (simp add: first keys)
  also have "\<dots> = Some (''1b4e28ba'', Suc (Suc 0),
       example_service\<lparr>sent := (sent example_service @
         [\<lparr>sql = generateUniqueEventKey_query (SCHEMA_NAME example_service) ''abc123de'',
           params = []\<rparr>]) @
         [\<lparr>sql = generateUniqueEventKey_query (SCHEMA_NAME example_service) ''1b4e28ba'',
           params = []\<rparr>]\<rparr>)"
    by (subst generateUniqueEventKey_unfold) (simp add: second keys)
  finally show ?thesis
    by (simp add: example_service_def numeral_2_eq_2)
qed

theorem generateUniqueEventKey_fresh_witness:
  "(\<forall>j. uuid_format (example_uuidv4 j)) \<and>
   generateUniqueEventKey example_uuidv4 0 example_service =
     Some (''1b4e28ba'', 2,
       example_service\<lparr>sent :=
         [\<lparr>sql = generateUniqueEventKey_query ''quiz'' ''abc123de'', params = []\<rparr>,
          \<lparr>sql = generateUniqueEventKey_query ''quiz'' ''1b4e28ba'', params = []\<rparr>]\<rparr>) \<and>
   length ''1b4e28ba'' = 8 \<and>
   ''1b4e28ba'' \<notin> r_event_key ` set (Room_table example_service) \<and>
   (\<exists>m\<ge>0. take 8 (example_uuidv4 m) \<notin> r_event_key ` set (Room_table example_service)) \<and>
   (\<exists>y. generateUniqueEventKey example_uuidv4 0 example_service = Some y)"
proof -
  let ?s' = "example_service\<lparr>sent :=
         [\<lparr>sql = generateUniqueEventKey_query ''quiz'' ''abc123de'', params = []\<rparr>,
          \<lparr>sql = generateUniqueEventKey_query ''quiz'' ''1b4e28ba'', params = []\<rparr>]\<rparr>"
  note inst = generateUniqueEventKey_fresh [OF example_uuid_format,
      where n = 0 and s = example_service and eventKey = "''1b4e28ba''" and n' = 2 and s' = ?s']
  have free: "\<exists>m\<ge>0. take 8 (example_uuidv4 m) \<notin> r_event_key ` set (Room_table example_service)"
    by (rule exI [of _ 1]) (simp add: example_uuidv4_def example_service_def)
  from inst example_generateUniqueEventKey
  have "length ''1b4e28ba'' = 8 \<and>
        ''1b4e28ba'' \<notin> r_event_key ` set (Room_table example_service)"
    by blast
  moreover from inst free
  have "\<exists>y. generateUniqueEventKey example_uuidv4 0 example_service = Some y"
    by blast
  ultimately show ?thesis
    using example_uuid_format example_generateUniqueEventKey free by blast
qed

section \<open>Creation\<close>

lemma insort_key_snoc:
  "f y \<le> f x \<Longrightarrow> insort_key f y (zs @ [x]) = insort_key f y zs @ [x]"
  by (induction zs) simp_all

lemma sort_key_snoc:
  "\<forall>y\<in>set ys. f y \<le> f x \<Longrightarrow> sort_key f (ys @ [x]) = sort_key f ys @ [x]"
  by (induction ys) (simp_all add: insort_key_snoc)

lemma newest_row:
  assumes "\<forall>y\<in>set xs. f y < f x" and "P x"
  shows "take 1 (rev (sort_key f (filter P (xs @ [x])))) = [x]"
proof -
  have "\<forall>y\<in>set (filter P xs). f y \<le> f x"
    using assms(1) by (simp add: less_imp_le)
  then have "sort_key f (filter P xs @ [x]) = sort_key f (filter P xs) @ [x]"
    by (rule sort_key_snoc)
  then show ?thesis using assms(2) by simp
qed

lemma createQuiz_state:
  "snd (createQuiz d t r s) =
     s\<lparr>sent := sent s @
         [\<lparr>sql = createQuiz_insert_query (SCHEMA_NAME s),
           params = [PNumber d, PString t, PId r]\<rparr>,
          \<lparr>sql = createQuiz_select_query (SCHEMA_NAME s), params = [PId r]\<rparr>],
       Quiz_table := Quiz_table s @
         [\<lparr>qz_quiz_id = Quiz_seq s, qz_max_duration = d, qz_title = t, qz_room_id = r\<rparr>],
       Quiz_seq := Suc (Quiz_seq s)\<rparr>"
  by (simp add: createQuiz_def pool_query_def store_select_def insert_Quiz_def Let_def)

lemma createQuiz_result:
  "fst (createQuiz d t r s) =
     \<lparr>rows = take 1 (rev (sort_key qz_quiz_id (filter (\<lambda>q. qz_room_id q = r)
         (Quiz_table s @
          [\<lparr>qz_quiz_id = Quiz_seq s, qz_max_duration = d, qz_title = t, qz_room_id = r\<rparr>])))),
      rowCount = length (take 1 (rev (sort_key qz_quiz_id (filter (\<lambda>q. qz_room_id q = r)
         (Quiz_table s @
          [\<lparr>qz_quiz_id = Quiz_seq s, qz_max_duration = d, qz_title = t, qz_room_id = r\<rparr>])))))\<rparr>"
  by (simp add: createQuiz_def pool_query_def store_select_def insert_Quiz_def Let_def)

lemma createQuestion_state:
  "snd (createQuestion l ca quiz s) =
     s\<lparr>sent := sent s @
         [(case ca of
             Some answer \<Rightarrow> \<lparr>sql = createQuestion_insert3_query (SCHEMA_NAME s),
                              params = [PString l, PString answer, PId quiz]\<rparr>
           | None \<Rightarrow> \<lparr>sql = createQuestion_insert2_query (SCHEMA_NAME s),
                       params = [PString l, PId quiz]\<rparr>),
          \<lparr>sql = createQuestion_select_query (SCHEMA_NAME s), params = [PId quiz]\<rparr>],
       Question_table := Question_table s @
         [\<lparr>qn_question_id = Question_seq s, qn_question_label = l, qn_correct_answer = ca,
           qn_quiz_id = quiz\<rparr>],
       Question_seq := Suc (Question_seq s)\<rparr>"
  by (cases ca)
    (simp_all add: createQuestion_def pool_query_def store_select_def insert_Question_def Let_def)

lemma createQuestion_result:
  "fst (createQuestion l ca quiz s) =
     \<lparr>rows = take 1 (rev (sort_key qn_question_id (filter (\<lambda>q. qn_quiz_id q = quiz)
         (Question_table s @
          [\<lparr>qn_question_id = Question_seq s, qn_question_label = l, qn_correct_answer = ca,
            qn_quiz_id = quiz\<rparr>])))),
      rowCount = length (take 1 (rev (sort_key qn_question_id (filter (\<lambda>q. qn_quiz_id q = quiz)
         (Question_table s @
          [\<lparr>qn_question_id = Question_seq s, qn_question_label = l, qn_correct_answer = ca,
            qn_quiz_id = quiz\<rparr>])))))\<rparr>"
  by (cases ca)
    (simp_all add: createQuestion_def pool_query_def store_select_def insert_Question_def Let_def)

lemma createRoom_state:
  "snd (createRoom k n p s) =
     s\<lparr>sent := sent s @
         [\<lparr>sql = createRoom_insert_query (SCHEMA_NAME s),
           params = [PString k, PString n, PString p]\<rparr>,
          \<lparr>sql = createRoom_select_query (SCHEMA_NAME s), params = [PString k]\<rparr>],
       Room_table := Room_table s @
         [\<lparr>r_room_id = Room_seq s, r_event_key = k, r_room_name = n, r_presenter_id = p\<rparr>],
       Room_seq := Suc (Room_seq s)\<rparr>"
  by (simp add: createRoom_def pool_query_def store_select_def insert_Room_def Let_def)

lemma createRoom_result:
  "fst (createRoom k n p s) =
     \<lparr>rows = filter (\<lambda>r. r_event_key r = k) (Room_table s) @
         [\<lparr>r_room_id = Room_seq s, r_event_key = k, r_room_name = n, r_presenter_id = p\<rparr>],
      rowCount = Suc (length (filter (\<lambda>r. r_event_key r = k) (Room_table s)))\<rparr>"
  by (simp add: createRoom_def pool_query_def store_select_def insert_Room_def Let_def)

lemma createQuiz_newest:
  assumes "serial_ids s"
  shows "fst (createQuiz d t r s) =
     \<lparr>rows = [\<lparr>qz_quiz_id = Quiz_seq s, qz_max_duration = d, qz_title = t, qz_room_id = r\<rparr>],
      rowCount = 1\<rparr>"
proof -
  have "\<forall>q\<in>set (Quiz_table s). qz_quiz_id q <
          qz_quiz_id \<lparr>qz_quiz_id = Quiz_seq s, qz_max_duration = d, qz_title = t, qz_room_id = r\<rparr>"
    using assms by (simp add: serial_ids_def)
  then have "take 1 (rev (sort_key qz_quiz_id (filter (\<lambda>q. qz_room_id q = r)
         (Quiz_table s @
          [\<lparr>qz_quiz_id = Quiz_seq s, qz_max_duration = d, qz_title = t, qz_room_id = r\<rparr>])))) =
        [\<lparr>qz_quiz_id = Quiz_seq s, qz_max_duration = d, qz_title = t, qz_room_id = r\<rparr>]"
    by (rule newest_row) simp
  then show ?thesis by (simp only: createQuiz_result) simp
qed

lemma createQuestion_newest:
  assumes "serial_ids s"
  shows "fst (createQuestion l ca quiz s) =
     \<lparr>rows = [\<lparr>qn_question_id = Question_seq s, qn_question_label = l,
                qn_correct_answer = ca, qn_quiz_id = quiz\<rparr>],
      rowCount = 1\<rparr>"
proof -
  have "\<forall>q\<in>set (Question_table s). qn_question_id q <
          qn_question_id \<lparr>qn_question_id = Question_seq s, qn_question_label = l,
                qn_correct_answer = ca, qn_quiz_id = quiz\<rparr>"
    using assms by (simp add: serial_ids_def)
  then have "take 1 (rev (sort_key qn_question_id (filter (\<lambda>q. qn_quiz_id q = quiz)
         (Question_table s @
          [\<lparr>qn_question_id = Question_seq s, qn_question_label = l,
                qn_correct_answer = ca, qn_quiz_id = quiz\<rparr>])))) =
        [\<lparr>qn_question_id = Question_seq s, qn_question_label = l,
                qn_correct_answer = ca, qn_quiz_id = quiz\<rparr>]"
    by (rule newest_row) simp
  then show ?thesis by (simp only: createQuestion_result) simp
qed


lemma createChoices_fields:
  "sent (createChoices q cls s) = sent s @
     map (\<lambda>l. \<lparr>sql = createChoices_query (SCHEMA_NAME s), params = [PString l, PId q]\<rparr>) cls \<and>
   Choice_table (createChoices q cls s) = Choice_table s @
     map (\<lambda>(i, l). \<lparr>c_choice_id = i, c_choice_label = l, c_question_id = q\<rparr>)
       (enumerate (Choice_seq s) cls) \<and>
   Choice_seq (createChoices q cls s) = Choice_seq s + length cls \<and>
   SCHEMA_NAME (createChoices q cls s) = SCHEMA_NAME s \<and>
   Room_table (createChoices q cls s) = Room_table s \<and>
   Quiz_table (createChoices q cls s) = Quiz_table s \<and>
   Question_table (createChoices q cls s) = Question_table s \<and>
   AnswerEntry_table (createChoices q cls s) = AnswerEntry_table s \<and>
   Room_seq (createChoices q cls s) = Room_seq s \<and>
   Quiz_seq (createChoices q cls s) = Quiz_seq s \<and>
   Question_seq (createChoices q cls s) = Question_seq s"
  by (induction cls arbitrary: s) (simp_all add: pool_query_def insert_Choice_def Let_def)

text \<open>
  C5. When ids are serial, \<open>createQuestionAndChoices\<close> with a list of choice labels returns
  the created question and appends exactly one Choice row per label, in the order of the
  labels, each carrying the id of the created question; every label goes out in an INSERT
  of its own, one after the other, behind the two statements of \<open>createQuestion\<close>; and
  \<open>getAllChoicesByQuestion\<close> for the created question returns the new rows. For the labels
  A, B, C these are three rows. With \<open>choiceLabels\<close> undefined the Choice table stays as it
  was.
\<close>

theorem createQuestionAndChoices_choices:
  assumes "serial_ids s"
  shows "fst (createQuestionAndChoices l ca quiz (Some cls) s) =
           Inr \<lparr>rows = [\<lparr>qn_question_id = Question_seq s, qn_question_label = l,
                           qn_correct_answer = ca, qn_quiz_id = quiz\<rparr>], rowCount = 1\<rparr> \<and>
         Choice_table (snd (createQuestionAndChoices l ca quiz (Some cls) s)) =
           Choice_table s @
           map (\<lambda>(i, c). \<lparr>c_choice_id = i, c_choice_label = c, c_question_id = Question_seq s\<rparr>)
             (enumerate (Choice_seq s) cls) \<and>
         length (Choice_table (snd (createQuestionAndChoices l ca quiz (Some cls) s))) =
           length (Choice_table s) + length cls \<and>
         rows (fst (getAllChoicesByQuestion (Question_seq s)
                 (snd (createQuestionAndChoices l ca quiz (Some cls) s)))) =
           filter (\<lambda>c. c_question_id c = Question_seq s) (Choice_table s) @
           map (\<lambda>(i, c). \<lparr>c_choice_id = i, c_choice_label = c, c_question_id = Question_seq s\<rparr>)
             (enumerate (Choice_seq s) cls) \<and>
         drop 2 (issued (CreateQuestionAndChoices l ca quiz (Some cls)) s) =
           map (\<lambda>c. \<lparr>sql = createChoices_query (SCHEMA_NAME s),
                      params = [PString c, PId (Question_seq s)]\<rparr>) cls \<and>
         fst (createQuestionAndChoices l ca quiz None s) =
           Inr \<lparr>rows = [\<lparr>qn_question_id = Question_seq s, qn_question_label = l,
                           qn_correct_answer = ca, qn_quiz_id = quiz\<rparr>], rowCount = 1\<rparr> \<and>
         Choice_table (snd (createQuestionAndChoices l ca quiz None s)) = Choice_table s"
proof -
  let ?new = "\<lparr>qn_question_id = Question_seq s, qn_question_label = l,
               qn_correct_answer = ca, qn_quiz_id = quiz\<rparr>"
  let ?rows = "map (\<lambda>(i, c). \<lparr>c_choice_id = i, c_choice_label = c,
                 c_question_id = Question_seq s\<rparr>) (enumerate (Choice_seq s) cls)"
  let ?stmts = "map (\<lambda>c. \<lparr>sql = createChoices_query (SCHEMA_NAME s),
                      params = [PString c, PId (Question_seq s)]\<rparr>) cls"
  let ?s1 = "snd (createQuestion l ca quiz s)"
  let ?s2 = "createChoices (Question_seq s) cls ?s1"
  note q = createQuestion_newest [OF assms, of l ca quiz]
  have with_choices: "createQuestionAndChoices l ca quiz (Some cls) s =
      (Inr \<lparr>rows = [?new], rowCount = 1\<rparr>, ?s2)"
    by (simp add: createQuestionAndChoices_def split_def q)
  have without: "createQuestionAndChoices l ca quiz None s =
      (Inr \<lparr>rows = [?new], rowCount = 1\<rparr>, ?s1)"
    by (simp add: createQuestionAndChoices_def split_def q)
  have tab: "Choice_table ?s2 = Choice_table s @ ?rows"
    by (simp add: createChoices_fields createQuestion_state)
  have tab1: "Choice_table ?s1 = Choice_table s"
    by (simp add: createQuestion_state)
  have "length (sent ?s1) = length (sent s) + 2"
    by (simp add: createQuestion_state)
  moreover have "sent ?s2 = sent ?s1 @ ?stmts"
    by (simp add: createChoices_fields) (simp add: createQuestion_state)
  moreover have "take (length (sent s)) (sent ?s1) = sent s"
    by (simp add: createQuestion_state)
  ultimately have log: "drop 2 (drop (length (sent s)) (sent ?s2)) = ?stmts"
    by (simp add: add.commute)
  have retr: "rows (fst (getAllChoicesByQuestion (Question_seq s) ?s2)) =
      filter (\<lambda>c. c_question_id c = Question_seq s) (Choice_table s) @ ?rows"
    by (simp add: fst_getAllChoicesByQuestion tab split_def)
  have len: "length (Choice_table ?s2) = length (Choice_table s) + length cls"
    by (simp add: tab)
  show ?thesis
    using tab tab1 log retr len
    by (simp add: with_choices without issued_def)
qed


lemma example_serial_ids: "serial_ids example_service"
  by (simp add: serial_ids_def example_service_def)

theorem createQuestionAndChoices_choices_witness:
  "serial_ids example_service \<and>
   Choice_table (snd (createQuestionAndChoices ''Pick one'' None 1 (Some [''A'', ''B'', ''C''])
                        example_service)) =
     Choice_table example_service @
     [\<lparr>c_choice_id = 4, c_choice_label = ''A'', c_question_id = 3\<rparr>,
      \<lparr>c_choice_id = 5, c_choice_label = ''B'', c_question_id = 3\<rparr>,
      \<lparr>c_choice_id = 6, c_choice_label = ''C'', c_question_id = 3\<rparr>] \<and>
   length (Choice_table (snd (createQuestionAndChoices ''Pick one'' None 1
                                (Some [''A'', ''B'', ''C'']) example_service))) =
     length (Choice_table example_service) + 3 \<and>
   rows (fst (getAllChoicesByQuestion 3
           (snd (createQuestionAndChoices ''Pick one'' None 1 (Some [''A'', ''B'', ''C''])
                   example_service)))) =
     [\<lparr>c_choice_id = 4, c_choice_label = ''A'', c_question_id = 3\<rparr>,
      \<lparr>c_choice_id = 5, c_choice_label = ''B'', c_question_id = 3\<rparr>,
      \<lparr>c_choice_id = 6, c_choice_label = ''C'', c_question_id = 3\<rparr>] \<and>
   Choice_table (snd (createQuestionAndChoices ''Pick one'' None 1 None example_service)) =
     Choice_table example_service"
proof -
  have seqs: "Question_seq example_service = 3" "Choice_seq example_service = 4"
    by (simp_all add: example_service_def)
  have none_yet: "filter (\<lambda>c. c_question_id c = 3) (Choice_table example_service) = []"
    by (simp add: example_service_def)
  have enum: "enumerate 4 [''A'', ''B'', ''C''] = [(4, ''A''), (5, ''B''), (6, ''C'')]"
    by simp
  show ?thesis
    using createQuestionAndChoices_choices [OF example_serial_ids,
        of "''Pick one''" None 1 "[''A'', ''B'', ''C'']"]
      example_serial_ids
    by (simp add: seqs none_yet enum)
qed

text \<open>
  C6, as the service has it. When ids are serial, \<open>createQuiz\<close> and \<open>createQuestion\<close> send
  an INSERT and then a SELECT that takes the row of highest id within the parent (the room
  of the quiz, the quiz of the question), and return exactly the row just inserted.
  \<open>createRoom\<close> sends an INSERT and then re-reads by equality of \<open>event_key\<close>, without order
  or limit: it returns every room carrying the key, the inserted row last, which is the
  inserted row alone when no earlier room carried the key.
\<close>

theorem creation_rereads:
  assumes "serial_ids s"
  shows "fst (createQuiz d t r s) =
           \<lparr>rows = [\<lparr>qz_quiz_id = Quiz_seq s, qz_max_duration = d, qz_title = t,
                      qz_room_id = r\<rparr>], rowCount = 1\<rparr> \<and>
         Quiz_table (snd (createQuiz d t r s)) = Quiz_table s @
           [\<lparr>qz_quiz_id = Quiz_seq s, qz_max_duration = d, qz_title = t, qz_room_id = r\<rparr>] \<and>
         (\<forall>q \<in> set (Quiz_table (snd (createQuiz d t r s))).
            qz_room_id q = r \<longrightarrow> qz_quiz_id q \<le> Quiz_seq s) \<and>
         map sql (issued (CreateQuiz d t r) s) =
           [createQuiz_insert_query (SCHEMA_NAME s), createQuiz_select_query (SCHEMA_NAME s)] \<and>
         fst (createQuestion l ca quiz s) =
           \<lparr>rows = [\<lparr>qn_question_id = Question_seq s, qn_question_label = l,
                      qn_correct_answer = ca, qn_quiz_id = quiz\<rparr>], rowCount = 1\<rparr> \<and>
         Question_table (snd (createQuestion l ca quiz s)) = Question_table s @
           [\<lparr>qn_question_id = Question_seq s, qn_question_label = l,
             qn_correct_answer = ca, qn_quiz_id = quiz\<rparr>] \<and>
         (\<forall>q \<in> set (Question_table (snd (createQuestion l ca quiz s))).
            qn_quiz_id q = quiz \<longrightarrow> qn_question_id q \<le> Question_seq s) \<and>
         map sql (issued (CreateQuestion l ca quiz) s) =
           [case ca of Some answer \<Rightarrow> createQuestion_insert3_query (SCHEMA_NAME s)
                     | None \<Rightarrow> createQuestion_insert2_query (SCHEMA_NAME s),
            createQuestion_select_query (SCHEMA_NAME s)] \<and>
         Room_table (snd (createRoom k n p s)) = Room_table s @
           [\<lparr>r_room_id = Room_seq s, r_event_key = k, r_room_name = n, r_presenter_id = p\<rparr>] \<and>
         rows (fst (createRoom k n p s)) =
           filter (\<lambda>x. r_event_key x = k) (Room_table s) @
           [\<lparr>r_room_id = Room_seq s, r_event_key = k, r_room_name = n, r_presenter_id = p\<rparr>] \<and>
         ((\<forall>x \<in> set (Room_table s). r_event_key x \<noteq> k) \<longrightarrow>
            fst (createRoom k n p s) =
              \<lparr>rows = [\<lparr>r_room_id = Room_seq s, r_event_key = k, r_room_name = n,
                         r_presenter_id = p\<rparr>], rowCount = 1\<rparr>) \<and>
         map sql (issued (CreateRoom k n p) s) =
           [createRoom_insert_query (SCHEMA_NAME s), createRoom_select_query (SCHEMA_NAME s)]"
proof -
  have quiz_max: "\<forall>q \<in> set (Quiz_table (snd (createQuiz d t r s))).
            qz_room_id q = r \<longrightarrow> qz_quiz_id q \<le> Quiz_seq s"
    using assms by (auto simp add: createQuiz_state serial_ids_def less_imp_le)
  have question_max: "\<forall>q \<in> set (Question_table (snd (createQuestion l ca quiz s))).
            qn_quiz_id q = quiz \<longrightarrow> qn_question_id q \<le> Question_seq s"
    using assms by (auto simp add: createQuestion_state serial_ids_def less_imp_le)
  have quiz_sent: "map sql (issued (CreateQuiz d t r) s) =
           [createQuiz_insert_query (SCHEMA_NAME s), createQuiz_select_query (SCHEMA_NAME s)]"
    by (simp add: issued_def createQuiz_state)
  have question_sent: "map sql (issued (CreateQuestion l ca quiz) s) =
           [case ca of Some answer \<Rightarrow> createQuestion_insert3_query (SCHEMA_NAME s)
                     | None \<Rightarrow> createQuestion_insert2_query (SCHEMA_NAME s),
            createQuestion_select_query (SCHEMA_NAME s)]"
    by (cases ca) (simp_all add: issued_def createQuestion_state)
  have room_sent: "map sql (issued (CreateRoom k n p) s) =
           [createRoom_insert_query (SCHEMA_NAME s), createRoom_select_query (SCHEMA_NAME s)]"
    by (simp add: issued_def createRoom_state)
  have room_fresh: "fst (createRoom k n p s) =
              \<lparr>rows = [\<lparr>r_room_id = Room_seq s, r_event_key = k, r_room_name = n,
                         r_presenter_id = p\<rparr>], rowCount = 1\<rparr>"
    if "\<forall>x \<in> set (Room_table s). r_event_key x \<noteq> k"
  proof -
    have "filter (\<lambda>x. r_event_key x = k) (Room_table s) = []"
      using that by (simp add: filter_empty_conv)
    then show ?thesis by (simp add: createRoom_result)
  qed
  have room_tab: "Room_table (snd (createRoom k n p s)) = Room_table s @
           [\<lparr>r_room_id = Room_seq s, r_event_key = k, r_room_name = n, r_presenter_id = p\<rparr>]"
    and room_rows: "rows (fst (createRoom k n p s)) =
           filter (\<lambda>x. r_event_key x = k) (Room_table s) @
           [\<lparr>r_room_id = Room_seq s, r_event_key = k, r_room_name = n, r_presenter_id = p\<rparr>]"
    by (simp_all add: createRoom_state createRoom_result)
  have quiz_tab: "Quiz_table (snd (createQuiz d t r s)) = Quiz_table s @
           [\<lparr>qz_quiz_id = Quiz_seq s, qz_max_duration = d, qz_title = t, qz_room_id = r\<rparr>]"
    by (simp add: createQuiz_state)
  have question_tab: "Question_table (snd (createQuestion l ca quiz s)) = Question_table s @
           [\<lparr>qn_question_id = Question_seq s, qn_question_label = l,
             qn_correct_answer = ca, qn_quiz_id = quiz\<rparr>]"
    by (simp add: createQuestion_state)
  show ?thesis
    using createQuiz_newest [OF assms, of d t r] createQuestion_newest [OF assms, of l ca quiz]
      quiz_tab quiz_max quiz_sent question_tab question_max question_sent
      room_tab room_rows room_fresh room_sent
    by blast
qed


theorem creation_rereads_witness:
  "serial_ids example_service \<and>
   fst (createQuiz 5 ''Q2'' 2 example_service) =
     \<lparr>rows = [\<lparr>qz_quiz_id = 2, qz_max_duration = 5, qz_title = ''Q2'', qz_room_id = 2\<rparr>],
      rowCount = 1\<rparr> \<and>
   fst (createQuestion ''3+3?'' (Some ''6'') 1 example_service) =
     \<lparr>rows = [\<lparr>qn_question_id = 3, qn_question_label = ''3+3?'',
                qn_correct_answer = Some ''6'', qn_quiz_id = 1\<rparr>],
      rowCount = 1\<rparr> \<and>
   fst (createRoom ''77777777'' ''Room3'' ''p2'' example_service) =
     \<lparr>rows = [\<lparr>r_room_id = 3, r_event_key = ''77777777'', r_room_name = ''Room3'',
                r_presenter_id = ''p2''\<rparr>],
      rowCount = 1\<rparr>"
proof -
  have seqs: "Quiz_seq example_service = 2" "Question_seq example_service = 3"
    "Room_seq example_service = 3"
    by (simp_all add: example_service_def)
  have fresh: "\<forall>x \<in> set (Room_table example_service). r_event_key x \<noteq> ''77777777''"
    by (simp add: example_service_def)
  show ?thesis
    using creation_rereads [OF example_serial_ids, where d = 5 and t = "''Q2''" and r = 2 and
        l = "''3+3?''" and ca = "Some ''6''" and quiz = 1 and k = "''77777777''" and
        n = "''Room3''" and p = "''p2''"]
      example_serial_ids fresh
    by (simp add: seqs)
qed

text \<open>
  On a store that already holds a room with the key, \<open>createRoom\<close> returns two rows, the
  older room first: its follow-up query asks for the key, not for the highest id.
\<close>

theorem createRoom_rereads_counterexample:
  "rows (fst (createRoom ''abc123de'' ''Room3'' ''p2'' example_service)) =
     [\<lparr>r_room_id = 1, r_event_key = ''abc123de'', r_room_name = ''Room1'',
       r_presenter_id = ''p1''\<rparr>,
      \<lparr>r_room_id = 3, r_event_key = ''abc123de'', r_room_name = ''Room3'',
       r_presenter_id = ''p2''\<rparr>] \<and>
   rows (fst (createRoom ''abc123de'' ''Room3'' ''p2'' example_service)) \<noteq>
     [\<lparr>r_room_id = 3, r_event_key = ''abc123de'', r_room_name = ''Room3'',
       r_presenter_id = ''p2''\<rparr>] \<and>
   sql (last (sent (snd (createRoom ''abc123de'' ''Room3'' ''p2'' example_service)))) =
     ''SELECT * FROM quiz.Room WHERE event_key = $1''"
  by (simp add: createRoom_result createRoom_state createRoom_select_query_def
      example_service_def)

section \<open>Updates\<close>

lemma updateQuestion_state:
  "snd (updateQuestion qid l ca s) =
     s\<lparr>sent := sent s @
         [(case ca of
             None \<Rightarrow> \<lparr>sql = updateQuestion_update1_query (SCHEMA_NAME s),
                       params = [PString l, PId qid]\<rparr>
           | Some answer \<Rightarrow> \<lparr>sql = updateQuestion_update2_query (SCHEMA_NAME s),
                              params = [PString l, PString answer, PId qid]\<rparr>),
          \<lparr>sql = updateQuestion_select_query (SCHEMA_NAME s), params = [PId qid]\<rparr>],
       Question_table := map (\<lambda>row. if qn_question_id row = qid
             then (case ca of None \<Rightarrow> row\<lparr>qn_question_label := l\<rparr>
                   | Some answer \<Rightarrow> row\<lparr>qn_question_label := l,
                                         qn_correct_answer := Some answer\<rparr>)
             else row) (Question_table s)\<rparr>"
  by (cases ca)
    (simp_all add: updateQuestion_def pool_query_def store_select_def update_Question_def Let_def)

lemma updateQuestion_result:
  "rows (fst (updateQuestion qid l ca s)) =
     take 1 (filter (\<lambda>q. qn_question_id q = qid) (Question_table (snd (updateQuestion qid l ca s))))"
  by (cases ca)
    (simp_all add: updateQuestion_def pool_query_def store_select_def update_Question_def Let_def)

lemma updateQuiz_state:
  "snd (updateQuiz qid d t s) =
     s\<lparr>sent := sent s @
         [\<lparr>sql = updateQuiz_update_query (SCHEMA_NAME s),
           params = [PNumber d, PString t, PId qid]\<rparr>,
          \<lparr>sql = updateQuiz_select_query (SCHEMA_NAME s), params = [PId qid]\<rparr>],
       Quiz_table := map (\<lambda>row. if qz_quiz_id row = qid
             then row\<lparr>qz_max_duration := d, qz_title := t\<rparr> else row) (Quiz_table s)\<rparr>"
  by (simp add: updateQuiz_def pool_query_def store_select_def update_Quiz_def Let_def)

lemma updateQuiz_result:
  "rows (fst (updateQuiz qid d t s)) =
     take 1 (filter (\<lambda>q. qz_quiz_id q = qid) (Quiz_table (snd (updateQuiz qid d t s))))"
  by (simp add: updateQuiz_def pool_query_def store_select_def update_Quiz_def Let_def)

text \<open>
  C8. \<open>updateQuestion\<close> with \<open>correctAnswer\<close> undefined sends the UPDATE that sets only
  \<open>question_label\<close>: the rows with the given id get the new label, and every row of the
  Question table keeps its correct answer, its id and its quiz id; rows with another id and
  all other tables and counters stay as they were. The row it returns carries the stored
  correct answer.
\<close>

theorem updateQuestion_label_only:
  "Question_table (snd (updateQuestion qid l None s)) =
     map (\<lambda>row. if qn_question_id row = qid then row\<lparr>qn_question_label := l\<rparr> else row)
       (Question_table s) \<and>
   map qn_correct_answer (Question_table (snd (updateQuestion qid l None s))) =
     map qn_correct_answer (Question_table s) \<and>
   map qn_question_id (Question_table (snd (updateQuestion qid l None s))) =
     map qn_question_id (Question_table s) \<and>
   map qn_quiz_id (Question_table (snd (updateQuestion qid l None s))) =
     map qn_quiz_id (Question_table s) \<and>
   Room_table (snd (updateQuestion qid l None s)) = Room_table s \<and>
   Quiz_table (snd (updateQuestion qid l None s)) = Quiz_table s \<and>
   Choice_table (snd (updateQuestion qid l None s)) = Choice_table s \<and>
   AnswerEntry_table (snd (updateQuestion qid l None s)) = AnswerEntry_table s \<and>
   Question_seq (snd (updateQuestion qid l None s)) = Question_seq s \<and>
   rows (fst (updateQuestion qid l None s)) =
     take 1 (map (\<lambda>row. row\<lparr>qn_question_label := l\<rparr>)
       (filter (\<lambda>row. qn_question_id row = qid) (Question_table s))) \<and>
   issued (UpdateQuestion qid l None) s =
     [\<lparr>sql = updateQuestion_update1_query (SCHEMA_NAME s), params = [PString l, PId qid]\<rparr>,
      \<lparr>sql = updateQuestion_select_query (SCHEMA_NAME s), params = [PId qid]\<rparr>]"
proof -
  let ?s' = "snd (updateQuestion qid l None s)"
  have tab: "Question_table ?s' =
     map (\<lambda>row. if qn_question_id row = qid then row\<lparr>qn_question_label := l\<rparr> else row)
       (Question_table s)"
    by (simp add: updateQuestion_state)
  have cols: "map qn_correct_answer (Question_table ?s') = map qn_correct_answer (Question_table s)"
    "map qn_question_id (Question_table ?s') = map qn_question_id (Question_table s)"
    "map qn_quiz_id (Question_table ?s') = map qn_quiz_id (Question_table s)"
    by (simp_all add: tab o_def if_distrib cong: if_cong)
  have frame: "Room_table ?s' = Room_table s" "Quiz_table ?s' = Quiz_table s"
    "Choice_table ?s' = Choice_table s" "AnswerEntry_table ?s' = AnswerEntry_table s"
    "Question_seq ?s' = Question_seq s"
    by (simp_all add: updateQuestion_state)
  have "filter (\<lambda>q. qn_question_id q = qid)
          (map (\<lambda>row. if qn_question_id row = qid then row\<lparr>qn_question_label := l\<rparr> else row) xs) =
        map (\<lambda>row. row\<lparr>qn_question_label := l\<rparr>) (filter (\<lambda>row. qn_question_id row = qid) xs)"
    for xs :: "Question_row list"
    by (induction xs) simp_all
  then have res: "rows (fst (updateQuestion qid l None s)) =
     take 1 (map (\<lambda>row. row\<lparr>qn_question_label := l\<rparr>)
       (filter (\<lambda>row. qn_question_id row = qid) (Question_table s)))"
    by (simp only: updateQuestion_result tab)
  have log: "issued (UpdateQuestion qid l None) s =
     [\<lparr>sql = updateQuestion_update1_query (SCHEMA_NAME s), params = [PString l, PId qid]\<rparr>,
      \<lparr>sql = updateQuestion_select_query (SCHEMA_NAME s), params = [PId qid]\<rparr>]"
    by (simp add: issued_def updateQuestion_state)
  show ?thesis
    using tab cols frame res log by blast
qed

theorem updateQuestion_label_only_witness:
  "Question_table (snd (updateQuestion 1 ''two plus two?'' None example_service)) =
     [\<lparr>qn_question_id = 1, qn_question_label = ''two plus two?'',
       qn_correct_answer = Some ''4'', qn_quiz_id = 1\<rparr>,
      \<lparr>qn_question_id = 2, qn_question_label = ''Why?'', qn_correct_answer = None,
       qn_quiz_id = 1\<rparr>] \<and>
   rows (fst (updateQuestion 1 ''two plus two?'' None example_service)) =
     [\<lparr>qn_question_id = 1, qn_question_label = ''two plus two?'',
       qn_correct_answer = Some ''4'', qn_quiz_id = 1\<rparr>]"
proof -
  have tab: "Question_table example_service =
     [\<lparr>qn_question_id = 1, qn_question_label = ''2+2?'', qn_correct_answer = Some ''4'',
       qn_quiz_id = 1\<rparr>,
      \<lparr>qn_question_id = 2, qn_question_label = ''Why?'', qn_correct_answer = None,
       qn_quiz_id = 1\<rparr>]"
    by (simp add: example_service_def)
  show ?thesis
    using updateQuestion_label_only [of 1 "''two plus two?''" example_service]
    by (simp add: tab)
qed

text \<open>
  C10. \<open>updateQuiz\<close> sends one UPDATE that sets both \<open>max_duration\<close> and \<open>title\<close> to the
  values supplied: every row with the given id holds both afterwards, whatever it held
  before, and each row of the Quiz table keeps its quiz id and its room id; rows with
  another id and all other tables stay as they were. The operation takes both values in
  every call: it has no variant that leaves one of them alone.
\<close>

theorem updateQuiz_overwrites:
  "Quiz_table (snd (updateQuiz qid d t s)) =
     map (\<lambda>row. if qz_quiz_id row = qid then row\<lparr>qz_max_duration := d, qz_title := t\<rparr>
                 else row) (Quiz_table s) \<and>
   map qz_quiz_id (Quiz_table (snd (updateQuiz qid d t s))) = map qz_quiz_id (Quiz_table s) \<and>
   map qz_room_id (Quiz_table (snd (updateQuiz qid d t s))) = map qz_room_id (Quiz_table s) \<and>
   list_all (\<lambda>row. qz_quiz_id row \<noteq> qid \<or> (qz_max_duration row = d \<and> qz_title row = t))
     (Quiz_table (snd (updateQuiz qid d t s))) \<and>
   Room_table (snd (updateQuiz qid d t s)) = Room_table s \<and>
   Question_table (snd (updateQuiz qid d t s)) = Question_table s \<and>
   Choice_table (snd (updateQuiz qid d t s)) = Choice_table s \<and>
   AnswerEntry_table (snd (updateQuiz qid d t s)) = AnswerEntry_table s \<and>
   Quiz_seq (snd (updateQuiz qid d t s)) = Quiz_seq s \<and>
   issued (UpdateQuiz qid d t) s =
     [\<lparr>sql = updateQuiz_update_query (SCHEMA_NAME s),
       params = [PNumber d, PString t, PId qid]\<rparr>,
      \<lparr>sql = updateQuiz_select_query (SCHEMA_NAME s), params = [PId qid]\<rparr>]"
proof -
  let ?s' = "snd (updateQuiz qid d t s)"
  have tab: "Quiz_table ?s' =
     map (\<lambda>row. if qz_quiz_id row = qid then row\<lparr>qz_max_duration := d, qz_title := t\<rparr>
                 else row) (Quiz_table s)"
    by (simp add: updateQuiz_state)
  have cols: "map qz_quiz_id (Quiz_table ?s') = map qz_quiz_id (Quiz_table s)"
    "map qz_room_id (Quiz_table ?s') = map qz_room_id (Quiz_table s)"
    by (simp_all add: tab o_def if_distrib cong: if_cong)
  have "list_all (\<lambda>row. qz_quiz_id row \<noteq> qid \<or>
        (qz_max_duration row = d \<and> qz_title row = t))
      (map (\<lambda>row. if qz_quiz_id row = qid then row\<lparr>qz_max_duration := d, qz_title := t\<rparr>
                 else row) xs)" for xs :: "Quiz_row list"
    by (induction xs) simp_all
  then have both: "list_all (\<lambda>row. qz_quiz_id row \<noteq> qid \<or>
        (qz_max_duration row = d \<and> qz_title row = t)) (Quiz_table ?s')"
    by (simp only: tab)
  have frame: "Room_table ?s' = Room_table s" "Question_table ?s' = Question_table s"
    "Choice_table ?s' = Choice_table s" "AnswerEntry_table ?s' = AnswerEntry_table s"
    "Quiz_seq ?s' = Quiz_seq s"
    by (simp_all add: updateQuiz_state)
  have log: "issued (UpdateQuiz qid d t) s =
     [\<lparr>sql = updateQuiz_update_query (SCHEMA_NAME s),
       params = [PNumber d, PString t, PId qid]\<rparr>,
      \<lparr>sql = updateQuiz_select_query (SCHEMA_NAME s), params = [PId qid]\<rparr>]"
    by (simp add: issued_def updateQuiz_state)
  show ?thesis
    using tab cols both frame log by blast
qed

theorem updateQuiz_overwrites_witness:
  "Quiz_table (snd (updateQuiz 1 25 ''Warm-up'' example_service)) =
     [\<lparr>qz_quiz_id = 1, qz_max_duration = 25, qz_title = ''Warm-up'', qz_room_id = 1\<rparr>] \<and>
   list_all (\<lambda>row. qz_quiz_id row \<noteq> 1 \<or> (qz_max_duration row = 25 \<and> qz_title row = ''Warm-up''))
     (Quiz_table (snd (updateQuiz 1 25 ''Warm-up'' example_service)))"
proof -
  have tab: "Quiz_table example_service =
     [\<lparr>qz_quiz_id = 1, qz_max_duration = 10, qz_title = ''Q1'', qz_room_id = 1\<rparr>]"
    by (simp add: example_service_def)
  show ?thesis
    using updateQuiz_overwrites [of 1 25 "''Warm-up''" example_service]
    by (simp add: tab)
qed

section \<open>The statements sent\<close>

lemma issued_append:
  "sent (run c s) = sent s @ xs \<Longrightarrow> issued c s = xs"
  by (simp add: issued_def)

lemma getAllAnswersByQuiz_state:
  "snd (getAllAnswersByQuiz q s) =
     s\<lparr>sent := sent s @
        [\<lparr>sql = getAllAnswersByQuiz_query (SCHEMA_NAME s), params = [PId q]\<rparr>]\<rparr>"
  by (simp add: getAllAnswersByQuiz_def pool_query_def store_select_def Let_def)

lemma getRoomByEventKey_state:
  "snd (getRoomByEventKey k s) =
     s\<lparr>sent := sent s @
        [\<lparr>sql = getRoomByEventKey_query (SCHEMA_NAME s), params = [PString k]\<rparr>]\<rparr>"
  by (simp add: getRoomByEventKey_def pool_query_def store_select_def Let_def)

lemma getAllQuizzesByEventKey_state:
  "snd (getAllQuizzesByEventKey k s) =
     s\<lparr>sent := sent s @
        [\<lparr>sql = getAllQuizzesByEventKey_query (SCHEMA_NAME s), params = [PString k]\<rparr>]\<rparr>"
  by (simp add: getAllQuizzesByEventKey_def pool_query_def store_select_def Let_def)

lemma getAllRoomsByPresenter_state:
  "snd (getAllRoomsByPresenter p s) =
     s\<lparr>sent := sent s @
        [\<lparr>sql = getAllRoomsByPresenter_query (SCHEMA_NAME s), params = [PString p]\<rparr>]\<rparr>"
  by (simp add: getAllRoomsByPresenter_def pool_query_def store_select_def Let_def)

lemma getAllFromTable_state:
  "snd (getAllFromTable tableName relation s) =
     s\<lparr>sent := sent s @
        [\<lparr>sql = getAllFromTable_query (SCHEMA_NAME s) tableName, params = []\<rparr>]\<rparr>"
  by (simp add: getAllFromTable_def pool_query_def store_select_def Let_def)

lemma take_1_rev_nonempty: "ys \<noteq> [] \<Longrightarrow> take 1 (rev ys) \<noteq> []"
  by (cases ys rule: rev_cases) simp_all

lemma concat_map_const: "concat (map (\<lambda>x. ys) xs) = concat (replicate (length xs) ys)"
  by (induction xs) simp_all

lemma createQuestion_rows_nonempty:
  "rows (fst (createQuestion l ca quiz s)) \<noteq> []"
proof -
  have "length (sort_key qn_question_id (filter (\<lambda>q. qn_quiz_id q = quiz)
         (Question_table s @
          [\<lparr>qn_question_id = Question_seq s, qn_question_label = l, qn_correct_answer = ca,
            qn_quiz_id = quiz\<rparr>]))) \<noteq> 0"
    by simp
  then have "sort_key qn_question_id (filter (\<lambda>q. qn_quiz_id q = quiz)
         (Question_table s @
          [\<lparr>qn_question_id = Question_seq s, qn_question_label = l, qn_correct_answer = ca,
            qn_quiz_id = quiz\<rparr>])) \<noteq> []"
    by (simp only: length_0_conv simp_thms)
  then have "take 1 (rev (sort_key qn_question_id (filter (\<lambda>q. qn_quiz_id q = quiz)
         (Question_table s @
          [\<lparr>qn_question_id = Question_seq s, qn_question_label = l, qn_correct_answer = ca,
            qn_quiz_id = quiz\<rparr>])))) \<noteq> []"
    by (rule take_1_rev_nonempty)
  then show ?thesis
    by (simp only: createQuestion_result QueryResult.simps simp_thms)
qed

lemma createQuestionAndChoices_texts:
  "map sql (issued (CreateQuestionAndChoices l ca quiz cls) s) =
     [case ca of Some answer \<Rightarrow> createQuestion_insert3_query (SCHEMA_NAME s)
               | None \<Rightarrow> createQuestion_insert2_query (SCHEMA_NAME s),
      createQuestion_select_query (SCHEMA_NAME s)] @
     (case cls of None \<Rightarrow> []
      | Some labels \<Rightarrow> replicate (length labels) (createChoices_query (SCHEMA_NAME s)))"
proof -
  let ?s1 = "snd (createQuestion l ca quiz s)"
  have s1: "sent ?s1 = sent s @
      [(case ca of
             Some answer \<Rightarrow> \<lparr>sql = createQuestion_insert3_query (SCHEMA_NAME s),
                              params = [PString l, PString answer, PId quiz]\<rparr>
           | None \<Rightarrow> \<lparr>sql = createQuestion_insert2_query (SCHEMA_NAME s),
                       params = [PString l, PId quiz]\<rparr>),
          \<lparr>sql = createQuestion_select_query (SCHEMA_NAME s), params = [PId quiz]\<rparr>]"
    and sn: "SCHEMA_NAME ?s1 = SCHEMA_NAME s"
    by (simp_all add: createQuestion_state)
  show ?thesis
  proof (cases cls)
    case None
    then have "run (CreateQuestionAndChoices l ca quiz cls) s = ?s1"
      by (simp add: createQuestionAndChoices_def split_def Let_def)
    then show ?thesis
      using None s1 by (cases ca) (simp_all add: issued_def)
  next
    case (Some labels)
    obtain row rest where rows: "rows (fst (createQuestion l ca quiz s)) = row # rest"
      using createQuestion_rows_nonempty [of l ca quiz s] by (auto simp add: neq_Nil_conv)
    have "run (CreateQuestionAndChoices l ca quiz cls) s =
          createChoices (qn_question_id row) labels ?s1"
      using Some rows by (simp add: createQuestionAndChoices_def split_def Let_def)
    then have "sent (run (CreateQuestionAndChoices l ca quiz cls) s) =
        sent ?s1 @ map (\<lambda>c. \<lparr>sql = createChoices_query (SCHEMA_NAME s),
                                params = [PString c, PId (qn_question_id row)]\<rparr>) labels"
      by (simp add: createChoices_fields sn)
    then show ?thesis
      using Some s1 by (cases ca) (simp_all add: issued_def o_def map_replicate_const)
  qed
qed

lemma getAllAnswersByEventKey_loop_sent:
  "sent (snd (getAllAnswersByEventKey_loop qs acc s)) =
     sent s @ concat (map (\<lambda>q.
       [\<lparr>sql = getAllChoicesByQuestion_query (SCHEMA_NAME s), params = [PId (i_questionId q)]\<rparr>,
        \<lparr>sql = getAllAnswersByQuestion_query (SCHEMA_NAME s), params = [PId (i_questionId q)]\<rparr>])
       qs)"
proof (induction qs arbitrary: acc s)
  case Nil
  show ?case by simp
next
  case (Cons q qs)
  show ?case
    by (simp add: split_def Let_def Cons.IH snd_getAllChoicesByQuestion
        snd_getAllAnswersByQuestion)
qed

lemma getAllAnswersByEventKey_texts:
  "map sql (issued (GetAllAnswersByEventKey k) s) =
     getAllQuestionsByEventKey_query (SCHEMA_NAME s) #
     concat (replicate (length (join_Question_Quiz_Room k s))
       [getAllChoicesByQuestion_query (SCHEMA_NAME s),
        getAllAnswersByQuestion_query (SCHEMA_NAME s)])"
  by (simp add: issued_def getAllAnswersByEventKey_def split_def Let_def
      getAllAnswersByEventKey_loop_sent snd_getAllQuestionsByEventKey
      fst_getAllQuestionsByEventKey map_concat o_def concat_map_const)

lemma other_texts:
  "map sql (issued (GetAllQuestionsByEventKey k) s) =
     [getAllQuestionsByEventKey_query (SCHEMA_NAME s)]"
  "map sql (issued (GetAllChoicesByQuestion q) s) = [getAllChoicesByQuestion_query (SCHEMA_NAME s)]"
  "map sql (issued (CreateAnswer q p l) s) = [createAnswer_query (SCHEMA_NAME s)]"
  "map sql (issued (CreateRoom k n p) s) =
     [createRoom_insert_query (SCHEMA_NAME s), createRoom_select_query (SCHEMA_NAME s)]"
  "map sql (issued (CreateQuiz d t r) s) =
     [createQuiz_insert_query (SCHEMA_NAME s), createQuiz_select_query (SCHEMA_NAME s)]"
  "map sql (issued (CreateQuestion l ca quiz) s) =
     [case ca of Some answer \<Rightarrow> createQuestion_insert3_query (SCHEMA_NAME s)
               | None \<Rightarrow> createQuestion_insert2_query (SCHEMA_NAME s),
      createQuestion_select_query (SCHEMA_NAME s)]"
  "map sql (issued (CreateChoices q cls) s) =
     replicate (length cls) (createChoices_query (SCHEMA_NAME s))"
  "map sql (issued (GetAllAnswersByQuiz q) s) = [getAllAnswersByQuiz_query (SCHEMA_NAME s)]"
  "map sql (issued (GetRoomByEventKey k) s) = [getRoomByEventKey_query (SCHEMA_NAME s)]"
  "map sql (issued (GetAllQuizzesByEventKey k) s) =
     [getAllQuizzesByEventKey_query (SCHEMA_NAME s)]"
  "map sql (issued (UpdateQuiz q d t) s) =
     [updateQuiz_update_query (SCHEMA_NAME s), updateQuiz_select_query (SCHEMA_NAME s)]"
  "map sql (issued (UpdateQuestion q l ca) s) =
     [case ca of None \<Rightarrow> updateQuestion_update1_query (SCHEMA_NAME s)
               | Some answer \<Rightarrow> updateQuestion_update2_query (SCHEMA_NAME s),
      updateQuestion_select_query (SCHEMA_NAME s)]"
  "map sql (issued (GetAllRoomsByPresenter p) s) =
     [getAllRoomsByPresenter_query (SCHEMA_NAME s)]"
  "map sql (issued (GetAllAnswersByQuestion q) s) =
     [getAllAnswersByQuestion_query (SCHEMA_NAME s)]"
  by (simp_all add: issued_def snd_getAllQuestionsByEventKey snd_getAllChoicesByQuestion
      snd_createAnswer createRoom_state createQuiz_state createQuestion_state
      createChoices_fields getAllAnswersByQuiz_state getRoomByEventKey_state
      getAllQuizzesByEventKey_state updateQuiz_state updateQuestion_state
      getAllRoomsByPresenter_state snd_getAllAnswersByQuestion o_def map_replicate_const
      split: option.splits)

section \<open>Statement texts and argument values\<close>

lemma texts_of_shape:
  assumes "SCHEMA_NAME s = SCHEMA_NAME s'" and "shape c \<noteq> GetAllAnswersByEventKey []"
  shows "map sql (issued c s) = map sql (issued (shape c) s')"
  using assms
  by (cases c) (simp_all add: other_texts createQuestionAndChoices_texts split: option.splits)

lemma aggregation_shape:
  "shape c = GetAllAnswersByEventKey [] \<Longrightarrow> \<exists>k. c = GetAllAnswersByEventKey k"
  by (cases c) simp_all

lemma prefix_concat_replicate:
  "n \<le> m \<Longrightarrow> prefix (x # concat (replicate n ys)) (x # concat (replicate m ys))"
proof -
  assume "n \<le> m"
  then have "replicate m ys = replicate n ys @ replicate (m - n) ys"
    by (simp add: replicate_add [symmetric])
  then have "concat (replicate m ys) = concat (replicate n ys) @ concat (replicate (m - n) ys)"
    by simp
  then show ?thesis by simp
qed

lemma generateUniqueEventKey_last_sent:
  assumes "generateUniqueEventKey uuidv4 n s = Some y"
  shows "last_sent_ok uuidv4 n s y"
proof (rule generateUniqueEventKey.raw_induct [where P = last_sent_ok, OF _ assms],
    goal_cases)
  case (1 gen uuidv4 n s y)
  let ?k = "take 8 (uuidv4 n)"
  let ?s1 = "s\<lparr>sent := sent s @
                [\<lparr>sql = generateUniqueEventKey_query (SCHEMA_NAME s) ?k, params = []\<rparr>]\<rparr>"
  have body: "(if ?k \<in> r_event_key ` set (Room_table s)
               then gen uuidv4 (Suc n) ?s1 else Some (?k, Suc n, ?s1)) = Some y"
    using 1(2)
    by (simp add: Let_def uniqueness_check collides_iff del: length_greater_0_conv
        cong: if_cong)
  show ?case
  proof (cases "?k \<in> r_event_key ` set (Room_table s)")
    case True
    have "gen uuidv4 (Suc n) ?s1 = Some y"
      using body unfolding if_P [OF True] .
    then have "last_sent_ok uuidv4 (Suc n) ?s1 y" by (rule 1(1))
    then show ?thesis by (simp add: last_sent_ok_def split_def)
  next
    case False
    have "Some (?k, Suc n, ?s1) = Some y"
      using body unfolding if_not_P [OF False] .
    then have "y = (?k, Suc n, ?s1)" by simp
    then show ?thesis by (simp add: last_sent_ok_def)
  qed
qed

lemma query_text_injective:
  "getAllFromTable_query sn t1 = getAllFromTable_query sn t2 \<longleftrightarrow> t1 = t2"
  "generateUniqueEventKey_query sn k1 = generateUniqueEventKey_query sn k2 \<longleftrightarrow> k1 = k2"
  by (simp_all add: getAllFromTable_query_def generateUniqueEventKey_query_def)

text \<open>
  C9, as the service has it. Two calls of the same content operation with the same
  optional arguments present and the same number of choice labels, on services with the
  same schema name, send the same SQL texts whatever the values of their arguments are;
  for \<open>getAllAnswersByEventKey\<close>, whose number of reads follows the number of questions found,
  the texts of one run are the beginning of the texts of the other. Two statements fall
  outside: the debugging helper \<open>getAllFromTable\<close> puts its argument into the text, and the
  uniqueness check of \<open>generateUniqueEventKey\<close> puts the candidate key into the text; either
  text determines the value spliced in.
\<close>

theorem statement_texts_independent_of_values:
  assumes "SCHEMA_NAME s = SCHEMA_NAME s'" and "shape c = shape c'"
  shows "(shape c \<noteq> GetAllAnswersByEventKey [] \<longrightarrow>
            map sql (issued c s) = map sql (issued c' s')) \<and>
         (prefix (map sql (issued c s)) (map sql (issued c' s')) \<or>
          prefix (map sql (issued c' s')) (map sql (issued c s))) \<and>
         map sql (sent (snd (getAllFromTable tab relation s))) =
           map sql (sent s) @ [getAllFromTable_query (SCHEMA_NAME s) tab] \<and>
         (getAllFromTable_query (SCHEMA_NAME s) tab = getAllFromTable_query (SCHEMA_NAME s) tab'
            \<longleftrightarrow> tab = tab') \<and>
         (generateUniqueEventKey uuid n s = Some (key, n', s'') \<longrightarrow>
            sent s'' \<noteq> [] \<and>
            last (sent s'') =
              \<lparr>sql = generateUniqueEventKey_query (SCHEMA_NAME s) key, params = []\<rparr>) \<and>
         (generateUniqueEventKey_query (SCHEMA_NAME s) key =
          generateUniqueEventKey_query (SCHEMA_NAME s) key' \<longleftrightarrow> key = key')"
proof -
  have same: "map sql (issued c s) = map sql (issued c' s')"
    if "shape c \<noteq> GetAllAnswersByEventKey []"
  proof -
    have "map sql (issued c s) = map sql (issued (shape c) s')"
      using assms(1) that by (rule texts_of_shape)
    also have "\<dots> = map sql (issued (shape c') s')"
      by (simp only: assms(2))
    also have "\<dots> = map sql (issued c' s')"
    proof -
      have "shape c' \<noteq> GetAllAnswersByEventKey []"
        using that unfolding assms(2) .
      then have "map sql (issued c' s') = map sql (issued (shape c') s')"
        by (rule texts_of_shape [OF refl])
      then show ?thesis by simp
    qed
    finally show ?thesis .
  qed
  have pre: "prefix (map sql (issued c s)) (map sql (issued c' s')) \<or>
          prefix (map sql (issued c' s')) (map sql (issued c s))"
  proof (cases "shape c = GetAllAnswersByEventKey []")
    case True
    then obtain k where c: "c = GetAllAnswersByEventKey k"
      using aggregation_shape by blast
    from True assms(2) obtain k' where c': "c' = GetAllAnswersByEventKey k'"
      using aggregation_shape [of c'] by auto
    let ?n = "length (join_Question_Quiz_Room k s)"
    let ?m = "length (join_Question_Quiz_Room k' s')"
    have texts: "map sql (issued c s) = getAllQuestionsByEventKey_query (SCHEMA_NAME s') #
        concat (replicate ?n [getAllChoicesByQuestion_query (SCHEMA_NAME s'),
          getAllAnswersByQuestion_query (SCHEMA_NAME s')])"
      "map sql (issued c' s') = getAllQuestionsByEventKey_query (SCHEMA_NAME s') #
        concat (replicate ?m [getAllChoicesByQuestion_query (SCHEMA_NAME s'),
          getAllAnswersByQuestion_query (SCHEMA_NAME s')])"
      by (simp_all only: c c' getAllAnswersByEventKey_texts assms(1))
    show ?thesis
    proof (cases "?n \<le> ?m")
      case True
      then have "prefix (map sql (issued c s)) (map sql (issued c' s'))"
        unfolding texts by (rule prefix_concat_replicate)
      then show ?thesis by (rule disjI1)
    next
      case False
      then have "?m \<le> ?n" by simp
      then have "prefix (map sql (issued c' s')) (map sql (issued c s))"
        unfolding texts by (rule prefix_concat_replicate)
      then show ?thesis by (rule disjI2)
    qed
  next
    case False
    then show ?thesis using same by simp
  qed
  have helper: "map sql (sent (snd (getAllFromTable tab relation s))) =
           map sql (sent s) @ [getAllFromTable_query (SCHEMA_NAME s) tab]"
    by (simp add: getAllFromTable_state)
  have spliced: "sent s'' \<noteq> [] \<and>
            last (sent s'') =
              \<lparr>sql = generateUniqueEventKey_query (SCHEMA_NAME s) key, params = []\<rparr>"
    if "generateUniqueEventKey uuid n s = Some (key, n', s'')"
    using generateUniqueEventKey_last_sent [OF that] by (simp add: last_sent_ok_def)
  have inj1: "getAllFromTable_query (SCHEMA_NAME s) tab = getAllFromTable_query (SCHEMA_NAME s) tab'
            \<longleftrightarrow> tab = tab'"
    and inj2: "generateUniqueEventKey_query (SCHEMA_NAME s) key =
          generateUniqueEventKey_query (SCHEMA_NAME s) key' \<longleftrightarrow> key = key'"
    by (rule query_text_injective)+
  from same have texts_equal: "shape c \<noteq> GetAllAnswersByEventKey [] \<longrightarrow>
            map sql (issued c s) = map sql (issued c' s')"
    by (rule impI)
  from spliced have key_spliced: "generateUniqueEventKey uuid n s = Some (key, n', s'') \<longrightarrow>
            sent s'' \<noteq> [] \<and>
            last (sent s'') =
              \<lparr>sql = generateUniqueEventKey_query (SCHEMA_NAME s) key, params = []\<rparr>"
    by (rule impI)
  show ?thesis
    by (intro conjI texts_equal pre helper inj1 key_spliced inj2)
qed


theorem statement_texts_independent_of_values_witness:
  "map sql (issued (CreateAnswer 1 ''u1'' ''4'') example_service) =
     map sql (issued (CreateAnswer 2 ''u2'' ''4; DROP TABLE quiz.Room'') example_service) \<and>
   (prefix (map sql (issued (GetAllAnswersByEventKey ''abc123de'') example_service))
           (map sql (issued (GetAllAnswersByEventKey ''ffffffff'') example_service)) \<or>
    prefix (map sql (issued (GetAllAnswersByEventKey ''ffffffff'') example_service))
           (map sql (issued (GetAllAnswersByEventKey ''abc123de'') example_service))) \<and>
   last (sent (example_service\<lparr>sent :=
         [\<lparr>sql = generateUniqueEventKey_query ''quiz'' ''abc123de'', params = []\<rparr>,
          \<lparr>sql = generateUniqueEventKey_query ''quiz'' ''1b4e28ba'', params = []\<rparr>]\<rparr>)) =
     \<lparr>sql = generateUniqueEventKey_query (SCHEMA_NAME example_service) ''1b4e28ba'',
      params = []\<rparr>"
proof -
  let ?s'' = "example_service\<lparr>sent :=
         [\<lparr>sql = generateUniqueEventKey_query ''quiz'' ''abc123de'', params = []\<rparr>,
          \<lparr>sql = generateUniqueEventKey_query ''quiz'' ''1b4e28ba'', params = []\<rparr>]\<rparr>"
  have shapes: "shape (CreateAnswer 1 ''u1'' ''4'') =
                shape (CreateAnswer 2 ''u2'' ''4; DROP TABLE quiz.Room'')"
    "shape (GetAllAnswersByEventKey ''abc123de'') = shape (GetAllAnswersByEventKey ''ffffffff'')"
    "shape (CreateAnswer 1 ''u1'' ''4'') \<noteq> GetAllAnswersByEventKey []"
    by simp_all
  note answers = statement_texts_independent_of_values [OF refl shapes(1),
      where s = example_service and uuid = example_uuidv4 and n = 0 and
        key = "''1b4e28ba''" and n' = 2 and s'' = ?s'']
  note aggregation = statement_texts_independent_of_values [OF refl shapes(2),
      where s = example_service]
  from answers shapes(3)
  have "map sql (issued (CreateAnswer 1 ''u1'' ''4'') example_service) =
     map sql (issued (CreateAnswer 2 ''u2'' ''4; DROP TABLE quiz.Room'') example_service)"
    by blast
  moreover from aggregation
  have "prefix (map sql (issued (GetAllAnswersByEventKey ''abc123de'') example_service))
           (map sql (issued (GetAllAnswersByEventKey ''ffffffff'') example_service)) \<or>
    prefix (map sql (issued (GetAllAnswersByEventKey ''ffffffff'') example_service))
           (map sql (issued (GetAllAnswersByEventKey ''abc123de'') example_service))"
    by blast
  moreover from answers example_generateUniqueEventKey
  have "last (sent ?s'') =
     \<lparr>sql = generateUniqueEventKey_query (SCHEMA_NAME example_service) ''1b4e28ba'',
      params = []\<rparr>"
    by blast
  ultimately show ?thesis by (intro conjI)
qed

text \<open>
  Two calls of \<open>getAllFromTable\<close> that differ in the table name send different SQL texts.
\<close>

theorem getAllFromTable_text_counterexample:
  "map sql (sent (snd (getAllFromTable ''Room'' (\<lambda>tableName t. [] :: unit list)
      example_service))) = [''SELECT * FROM quiz.Room''] \<and>
   map sql (sent (snd (getAllFromTable ''Quiz'' (\<lambda>tableName t. [] :: unit list)
      example_service))) = [''SELECT * FROM quiz.Quiz''] \<and>
   map sql (sent (snd (getAllFromTable ''Room'' (\<lambda>tableName t. [] :: unit list)
      example_service))) \<noteq>
   map sql (sent (snd (getAllFromTable ''Quiz'' (\<lambda>tableName t. [] :: unit list)
      example_service)))"
  by (simp add: getAllFromTable_state getAllFromTable_query_def example_service_def)

section \<open>Serial ids are primary keys in every service the calls can reach\<close>

lemma getAllAnswersByEventKey_loop_state:
  "snd (getAllAnswersByEventKey_loop qs acc s) =
     s\<lparr>sent := sent s @ concat (map (\<lambda>q.
       [\<lparr>sql = getAllChoicesByQuestion_query (SCHEMA_NAME s), params = [PId (i_questionId q)]\<rparr>,
        \<lparr>sql = getAllAnswersByQuestion_query (SCHEMA_NAME s), params = [PId (i_questionId q)]\<rparr>])
       qs)\<rparr>"
proof (induction qs arbitrary: acc s)
  case Nil
  show ?case by simp
next
  case (Cons q qs)
  show ?case
    by (simp add: split_def Let_def Cons.IH snd_getAllChoicesByQuestion
        snd_getAllAnswersByQuestion)
qed

lemma getAllAnswersByEventKey_frame:
  "Room_table (snd (getAllAnswersByEventKey k s)) = Room_table s"
  "Quiz_table (snd (getAllAnswersByEventKey k s)) = Quiz_table s"
  "Question_table (snd (getAllAnswersByEventKey k s)) = Question_table s"
  "Choice_table (snd (getAllAnswersByEventKey k s)) = Choice_table s"
  "AnswerEntry_table (snd (getAllAnswersByEventKey k s)) = AnswerEntry_table s"
  "Room_seq (snd (getAllAnswersByEventKey k s)) = Room_seq s"
  "Quiz_seq (snd (getAllAnswersByEventKey k s)) = Quiz_seq s"
  "Question_seq (snd (getAllAnswersByEventKey k s)) = Question_seq s"
  by (simp_all add: getAllAnswersByEventKey_def split_def Let_def
      getAllAnswersByEventKey_loop_state snd_getAllQuestionsByEventKey)

lemma createQuestionAndChoices_frame:
  "Room_table (snd (createQuestionAndChoices l ca quiz cls s)) = Room_table s"
  "Quiz_table (snd (createQuestionAndChoices l ca quiz cls s)) = Quiz_table s"
  "Question_table (snd (createQuestionAndChoices l ca quiz cls s)) =
     Question_table (snd (createQuestion l ca quiz s))"
  "Room_seq (snd (createQuestionAndChoices l ca quiz cls s)) = Room_seq s"
  "Quiz_seq (snd (createQuestionAndChoices l ca quiz cls s)) = Quiz_seq s"
  "Question_seq (snd (createQuestionAndChoices l ca quiz cls s)) =
     Question_seq (snd (createQuestion l ca quiz s))"
  by (simp_all add: createQuestionAndChoices_def split_def Let_def createChoices_fields
      createQuestion_state split: option.splits list.splits)

lemma fresh_id_distinct:
  "distinct (map f xs) \<Longrightarrow> \<forall>x\<in>set xs. f x < (n::nat) \<Longrightarrow> f y = n \<Longrightarrow>
   distinct (map f (xs @ [y]))"
  by auto

lemma ids_after_update:
  "map qz_quiz_id (map (\<lambda>row. if qz_quiz_id row = q
      then row\<lparr>qz_max_duration := d, qz_title := t\<rparr> else row) xs) = map qz_quiz_id xs"
  by (induction xs) simp_all

lemma serial_ids_alt:
  "serial_ids s \<longleftrightarrow>
     (\<forall>i \<in> set (map r_room_id (Room_table s)). i < Room_seq s) \<and>
     (\<forall>i \<in> set (map qz_quiz_id (Quiz_table s)). i < Quiz_seq s) \<and>
     (\<forall>i \<in> set (map qn_question_id (Question_table s)). i < Question_seq s)"
  by (simp add: serial_ids_def)

lemma same_ids_keep:
  assumes "serial_ids s \<and> primary_keys s"
    and "map r_room_id (Room_table s') = map r_room_id (Room_table s)"
    and "map qz_quiz_id (Quiz_table s') = map qz_quiz_id (Quiz_table s)"
    and "map qn_question_id (Question_table s') = map qn_question_id (Question_table s)"
    and "Room_seq s' = Room_seq s" and "Quiz_seq s' = Quiz_seq s"
    and "Question_seq s' = Question_seq s"
  shows "serial_ids s' \<and> primary_keys s'"
  using assms(1) unfolding serial_ids_alt primary_keys_def assms(2-7) .

lemma run_keeps_ids:
  assumes "serial_ids s \<and> primary_keys s"
  shows "serial_ids (run c s) \<and> primary_keys (run c s)"
proof (cases c)
  case (CreateRoom k n p)
  then show ?thesis
    using assms by (auto simp add: createRoom_state serial_ids_def primary_keys_def less_Suc_eq)
next
  case (CreateQuiz d t r)
  then show ?thesis
    using assms by (auto simp add: createQuiz_state serial_ids_def primary_keys_def less_Suc_eq)
next
  case (CreateQuestion l ca quiz)
  then show ?thesis
    using assms
    by (auto simp add: createQuestion_state serial_ids_def primary_keys_def less_Suc_eq)
next
  case (CreateQuestionAndChoices l ca quiz cls)
  then show ?thesis
    using assms
    by (auto simp add: createQuestionAndChoices_frame createQuestion_state serial_ids_def
        primary_keys_def less_Suc_eq)
next
  case (CreateChoices q cls)
  then show ?thesis
    using assms by (simp add: createChoices_fields serial_ids_def primary_keys_def)
next
  case (UpdateQuiz q d t)
  show ?thesis
    using assms
    by (rule same_ids_keep) (simp_all add: UpdateQuiz updateQuiz_state ids_after_update)
next
  case (UpdateQuestion q l ca)
  show ?thesis
    using assms
    by (rule same_ids_keep)
      (simp_all add: UpdateQuestion updateQuestion_state split: option.splits)
next
  case (GetAllAnswersByEventKey k)
  show ?thesis
    using assms
    by (rule same_ids_keep) (simp_all add: GetAllAnswersByEventKey getAllAnswersByEventKey_frame)
qed (use assms in \<open>simp_all add: snd_getAllQuestionsByEventKey snd_getAllChoicesByQuestion
      snd_createAnswer getAllAnswersByQuiz_state getRoomByEventKey_state
      getAllQuizzesByEventKey_state getAllRoomsByPresenter_state snd_getAllAnswersByQuestion
      serial_ids_def primary_keys_def\<close>)

lemma empty_service_ids: "serial_ids (empty_service sn) \<and> primary_keys (empty_service sn)"
  by (simp add: empty_service_def serial_ids_def primary_keys_def)

lemma reachable_ids:
  "serial_ids (foldl (\<lambda>t c. run c t) (empty_service sn) cs) \<and>
   primary_keys (foldl (\<lambda>t c. run c t) (empty_service sn) cs)"
proof (induction cs rule: rev_induct)
  case Nil
  show ?case using empty_service_ids by simp
next
  case (snoc c cs)
  then show ?case using run_keeps_ids by simp
qed

end
